theory Spec2Isabelle
  imports Complex_Main "HOL-Library.Log_Nat"
begin

section \<open>Numbers, errors and enumerations\<close>

text \<open>
  A TypeScript \<open>number\<close> is a double; the model has its value, a real. \<open>Math.floor\<close>,
  \<open>Math.ceil\<close>, \<open>Math.max\<close>, \<open>% 1\<close> and the comparisons are exact on doubles. The
  arithmetic of the amounts, rates and fees of the service and of \<open>convertBlocks\<close> rounds
  each result to the nearest double (\<open>toDouble\<close> below). The arithmetic of the timeout
  deltas and of the timeout of an invoice is modelled without rounding.
\<close>

type_synonym number = real

definition Math_floor :: "number \<Rightarrow> number" where
  "Math_floor x = of_int \<lfloor>x\<rfloor>"

definition Math_ceil :: "number \<Rightarrow> number" where
  "Math_ceil x = of_int \<lceil>x\<rceil>"

definition Math_max :: "number \<Rightarrow> number \<Rightarrow> number" where
  "Math_max a b = (if a < b then b else a)"

text \<open>The remainder \<open>x % 1\<close>: what is left of \<open>x\<close> after truncation towards zero.\<close>

definition rem1 :: "number \<Rightarrow> number" where
  "rem1 x = x - of_int (if 0 \<le> x then \<lfloor>x\<rfloor> else \<lceil>x\<rceil>)"

text \<open>Rounding to the nearest double, ties to even, as IEEE 754 binary64 does for
  \<open>+\<close>, \<open>-\<close>, \<open>*\<close>, \<open>/\<close> and for a decimal literal. \<open>binade x\<close> is the exponent \<open>e\<close> with
  \<open>2^e \<le> |x| < 2^(e+1)\<close>; the doubles of that binade are the multiples of \<open>2^(e-52)\<close>.
  The exponent is not bounded here: neither the overflow to \<open>Infinity\<close> (from \<open>2^1024\<close>
  on) nor the subnormal numbers (below \<open>2^-1022\<close>) are modelled.\<close>

definition binade :: "real \<Rightarrow> int" where
  "binade x =
     (if 1 \<le> \<bar>x\<bar> then bitlen \<lfloor>\<bar>x\<bar>\<rfloor> - 1 else - bitlen (\<lceil>1 / \<bar>x\<bar>\<rceil> - 1))"

definition roundTiesToEven :: "real \<Rightarrow> int" where
  "roundTiesToEven y =
     (let f = \<lfloor>y\<rfloor>; r = y - of_int f
      in if r < 1 / 2 then f else if 1 / 2 < r then f + 1 else if even f then f else f + 1)"

definition toDouble :: "real \<Rightarrow> real" where
  "toDouble x =
     (if x = 0 then 0
      else of_int (roundTiesToEven (x / 2 powi (binade x - 52))) * 2 powi (binade x - 52))"

text \<open>A failure of a collaborator that is not part of the modelled code (an RPC, the
  fee provider, the swap manager, a library): it reaches the caller as it is, and is
  none of the service's own errors.\<close>

datatype Failure = Failure string

text \<open>The errors of \<open>service/Errors\<close> that the modelled code raises, with the arguments
  the code passes. \<open>TypeError\<close> is the runtime's error on reading a property of
  \<open>undefined\<close>; \<open>Rejected\<close> carries a collaborator's failure.\<close>

datatype Error =
    NO_TIMEOUT_DELTA string
  | PAIR_NOT_FOUND string
  | INVALID_TIMEOUT_BLOCK_DELTA
  | MIN_EXPIRY_TOO_BIG number number
  | SWAP_WITH_INVOICE_EXISTS
  | REVERSE_SWAPS_DISABLED
  | ORDER_SIDE_NOT_FOUND string
  | CURRENCY_NOT_FOUND string
  | EXCEED_MAXIMAL_AMOUNT number number
  | BENEATH_MINIMAL_AMOUNT number number
  | ONCHAIN_AMOUNT_TOO_LOW
  | SWAP_NOT_FOUND string
  | CURRENCY_NOT_UTXO_BASED
  | NOT_ELIGIBLE_FOR_COOPERATIVE_REFUND
  | NOT_ELIGIBLE_FOR_COOPERATIVE_CLAIM
  | INCORRECT_PREIMAGE
  | TypeError
  | Rejected Failure

datatype OrderSide = BUY | SELL

text \<open>The enumerations of \<open>consts/Enums\<close> are declared outside the files modelled here.
  \<open>SwapType\<close>: the service names its third kind \<open>ChainToChain\<close>, the co-signer
  \<open>Chain\<close>.\<close>

datatype SwapType = Submarine | ReverseSubmarine | ChainToChain | Chain

datatype SwapVersion = Legacy | Taproot

text \<open>Modelled from the spec: \<open>SwapUpdateEvent\<close> and \<open>FailedSwapUpdateEvents\<close> of
  \<open>consts/Enums\<close> are outside the files modelled here. The statuses are those of the
  spec's section 4.3, which also has \<open>FailedSwapUpdateEvents = {TransactionFailed,
  InvoiceFailedToPay, SwapExpired, TransactionRefunded, InvoiceExpired}\<close>.\<close>

datatype SwapUpdateEvent =
    SwapCreated | TransactionWaiting | TransactionMempool | TransactionConfirmed
  | TransactionFailed | TransactionLockupFailed | InvoicePending | InvoicePaid
  | InvoiceFailedToPay | InvoiceSettled | InvoiceExpired | ChannelCreated
  | TransactionClaimed | TransactionRefunded | SwapExpired

definition FailedSwapUpdateEvents :: "SwapUpdateEvent list" where
  "FailedSwapUpdateEvents =
     [TransactionFailed, InvoiceFailedToPay, SwapExpired, TransactionRefunded, InvoiceExpired]"

section \<open>TimeoutDeltaProvider\<close>

record PairTimeoutBlocksDelta =
  reverse :: number
  swapMinimal :: number
  swapMaximal :: number

record PairTimeoutBlockDeltas =
  base :: PairTimeoutBlocksDelta
  quote :: PairTimeoutBlocksDelta

text \<open>The \<open>timeoutDelta\<close> entry of a pair in the configuration: a single number of
  minutes (the legacy form) or a table of three.\<close>

datatype TimeoutDeltaConfig = Minutes number | Table PairTimeoutBlocksDelta

text \<open>Modelled from the spec: \<open>PairConfig\<close> is declared in \<open>consts/Types\<close>, outside the
  files modelled here; an entry of the \<open>pairs\<close> array is \<open>{base, quote, rate?, fee,
  timeoutDelta}\<close>.\<close>

record PairConfig =
  pc_base :: string
  pc_quote :: string
  pc_rate :: "number option"
  pc_fee :: number
  timeoutDelta :: "TimeoutDeltaConfig option"

text \<open>The configuration: the path of its file, the pairs, and every other field
  (\<open>others\<close>), which the provider never reads.\<close>

record 'o ConfigType =
  configpath :: string
  pairs :: "PairConfig list"
  others :: 'o

text \<open>The helpers of \<open>Utils\<close> are outside the files modelled here: they are parameters
  of the model, as are \<open>crypto.sha256\<close> and, for \<open>setTimeout\<close>, the TOML serializer.\<close>

type_synonym Buffer = "nat list"

record Utils =
  splitPairId :: "string \<Rightarrow> string \<times> string"
  getPairId :: "PairConfig \<Rightarrow> string"
  getChainCurrency :: "string \<Rightarrow> string \<Rightarrow> OrderSide \<Rightarrow> bool \<Rightarrow> string"
  getLightningCurrency :: "string \<Rightarrow> string \<Rightarrow> OrderSide \<Rightarrow> bool \<Rightarrow> string"
  getHexBuffer :: "string \<Rightarrow> Buffer"
  getHexString :: "Buffer \<Rightarrow> string"
  sha256 :: "Buffer \<Rightarrow> Buffer"
  getRate :: "number \<Rightarrow> OrderSide \<Rightarrow> SwapType \<Rightarrow> number"
  getInvoiceAmt :: "string \<Rightarrow> Failure + number"
  getSwapMemo :: "string \<Rightarrow> SwapType \<Rightarrow> string"

text \<open>\<open>ElementsClient.symbol\<close> is declared outside the files modelled here.\<close>

definition ElementsClient_symbol :: string where
  "ElementsClient_symbol = ''L-BTC''"

definition routingOffset :: number where
  "routingOffset = 60"

definition noRoutes :: number where
  "noRoutes = - 1"

text \<open>The block times in minutes. A JavaScript \<open>Map\<close> built from entries keeps the last
  entry of a key, hence the reversal.\<close>

definition blockTimes :: "string \<rightharpoonup> number" where
  "blockTimes = map_of (rev
     [(''BTC'', 10), (''LTC'', 5 / 2), (''ETH'', 1 / 5), (ElementsClient_symbol, 1)])"

text \<open>\<open>a || b\<close>: \<open>b\<close> when \<open>a\<close> is \<open>undefined\<close> or \<open>0\<close>.\<close>

definition getBlockTime :: "string \<Rightarrow> number" where
  "getBlockTime symbol =
     (case blockTimes symbol of
        Some t \<Rightarrow> if t \<noteq> 0 then t else the (blockTimes ''ETH'')
      | None \<Rightarrow> the (blockTimes ''ETH''))"


definition calculateBlocks :: "string \<Rightarrow> number \<Rightarrow> Error + number" where
  "calculateBlocks symbol minutes =
     (let minutesPerBlock = getBlockTime symbol;
          blocks = minutes / minutesPerBlock
      in if rem1 blocks \<noteq> 0 \<or> blocks < 1 then Inl INVALID_TIMEOUT_BLOCK_DELTA
         else Inr blocks)"

definition convertToBlocks ::
  "PairTimeoutBlocksDelta \<Rightarrow> string \<Rightarrow> Error + PairTimeoutBlocksDelta" where
  "convertToBlocks newDeltas symbol =
     (case calculateBlocks symbol (reverse newDeltas) of
        Inl e \<Rightarrow> Inl e
      | Inr r \<Rightarrow>
         (case calculateBlocks symbol (swapMinimal newDeltas) of
            Inl e \<Rightarrow> Inl e
          | Inr mn \<Rightarrow>
             (case calculateBlocks symbol (swapMaximal newDeltas) of
                Inl e \<Rightarrow> Inl e
              | Inr mx \<Rightarrow> Inr \<lparr>reverse = r, swapMinimal = mn, swapMaximal = mx\<rparr>)))"

definition minutesToBlocks ::
  "Utils \<Rightarrow> string \<Rightarrow> PairTimeoutBlocksDelta \<Rightarrow> Error + PairTimeoutBlockDeltas" where
  "minutesToBlocks U pair newDeltas =
     (case splitPairId U pair of
        (b, q) \<Rightarrow>
          (case convertToBlocks newDeltas b of
             Inl e \<Rightarrow> Inl e
           | Inr bd \<Rightarrow>
              (case convertToBlocks newDeltas q of
                 Inl e \<Rightarrow> Inl e
               | Inr qd \<Rightarrow> Inr \<lparr>base = bd, quote = qd\<rparr>)))"

text \<open>The compatibility mode of \<open>init\<close>: a legacy number becomes a table whose three
  entries are that number.\<close>

definition expandLegacy :: "TimeoutDeltaConfig \<Rightarrow> PairTimeoutBlocksDelta" where
  "expandLegacy td =
     (case td of
        Minutes n \<Rightarrow> \<lparr>reverse = n, swapMinimal = n, swapMaximal = n\<rparr>
      | Table d \<Rightarrow> d)"

text \<open>\<open>init\<close> walks the pairs in order. It writes the expanded table back into the pair
  it was given, and stores the blocks in \<open>timeoutDeltas\<close>; an error leaves what was done
  for the earlier pairs. The result is the outcome, the map and the pairs as mutated.\<close>

fun init ::
  "Utils \<Rightarrow> (string \<rightharpoonup> PairTimeoutBlockDeltas) \<Rightarrow> PairConfig list \<Rightarrow>
     (Error + unit) \<times> (string \<rightharpoonup> PairTimeoutBlockDeltas) \<times> PairConfig list" where
  "init U tds [] = (Inr (), tds, [])"
| "init U tds (pair # rest) =
     (let pairId = getPairId U pair
      in case timeoutDelta pair of
           None \<Rightarrow> (Inl (NO_TIMEOUT_DELTA pairId), tds, pair # rest)
         | Some td \<Rightarrow>
            (let deltas = expandLegacy td;
                 pair' = pair\<lparr>timeoutDelta := Some (Table deltas)\<rparr>
             in case minutesToBlocks U pairId deltas of
                  Inl e \<Rightarrow> (Inl e, tds, pair' # rest)
                | Inr blocks \<Rightarrow>
                   (case init U (tds(pairId \<mapsto> blocks)) rest of
                      (r, tds', rest') \<Rightarrow> (r, tds', pair' # rest'))))"

text \<open>The file system as \<open>setTimeout\<close> uses it: the contents of each path, and the
  operations performed, oldest first.\<close>

datatype FsOp = WriteFileSync string string | RenameSync string string

record FileSystem =
  files :: "string \<rightharpoonup> string"
  fsOps :: "FsOp list"

definition writeFileSync :: "string \<Rightarrow> string \<Rightarrow> FileSystem \<Rightarrow> FileSystem" where
  "writeFileSync path contents fs =
     fs\<lparr>files := (files fs)(path \<mapsto> contents),
        fsOps := fsOps fs @ [WriteFileSync path contents]\<rparr>"

record 'o TimeoutDeltaProvider =
  timeoutDeltas :: "string \<rightharpoonup> PairTimeoutBlockDeltas"
  config :: "'o ConfigType"
  disk :: FileSystem

text \<open>The loop of \<open>setTimeout\<close> over \<open>config.pairs\<close>: the first pair with the identifier
  gets the new deltas, then the loop breaks.\<close>

fun setPairTimeoutDelta ::
  "Utils \<Rightarrow> string \<Rightarrow> PairTimeoutBlocksDelta \<Rightarrow> PairConfig list \<Rightarrow> PairConfig list" where
  "setPairTimeoutDelta U pairId newDeltas [] = []"
| "setPairTimeoutDelta U pairId newDeltas (p # ps) =
     (if getPairId U p = pairId then p\<lparr>timeoutDelta := Some (Table newDeltas)\<rparr> # ps
      else p # setPairTimeoutDelta U pairId newDeltas ps)"

definition setTimeout ::
  "Utils \<Rightarrow> ('o ConfigType \<Rightarrow> string) \<Rightarrow> 'o TimeoutDeltaProvider \<Rightarrow> string \<Rightarrow>
     PairTimeoutBlocksDelta \<Rightarrow> (Error + unit) \<times> 'o TimeoutDeltaProvider" where
  "setTimeout U toml_stringify this pairId newDeltas =
     (if timeoutDeltas this pairId \<noteq> None then
        (case minutesToBlocks U pairId newDeltas of
           Inl e \<Rightarrow> (Inl e, this)
         | Inr blocks \<Rightarrow>
            (let config' = (config this)
                   \<lparr>pairs := setPairTimeoutDelta U pairId newDeltas (pairs (config this))\<rparr>;
                 newConfig = toml_stringify config'
             in (Inr (),
                 this\<lparr>timeoutDeltas := (timeoutDeltas this)(pairId \<mapsto> blocks),
                      config := config',
                      disk := writeFileSync (configpath config') newConfig (disk this)\<rparr>)))
      else (Inl (PAIR_NOT_FOUND pairId), this))"

subsection \<open>Currencies and their clients\<close>

text \<open>The clients are outside the files modelled here. A client is the record of the calls
  the modelled code makes; each call returns its value or fails with an error of its
  own. \<open>paymentMaxParts\<close> is the constant \<open>LndClient.paymentMaxParts\<close>.\<close>

record Feature =
  feature_name :: string
  isKnown :: bool
  isRequired :: bool

record PayReq =
  numSatoshis :: number
  destination :: string
  cltvExpiry :: number
  routeHintsList :: "string list"
  featuresMap :: "(nat \<times> Feature) list"

record Route =
  totalTimeLock :: number

datatype PaymentStatus = UNKNOWN | IN_FLIGHT | SUCCEEDED | FAILED

datatype PayStatus = PayStatus string

record BlockchainInfo =
  blocks :: number

record ChainClient =
  getBlockchainInfo :: "Failure + BlockchainInfo"

record LndClient =
  paymentMaxParts :: number
  decodePayReqRawResponse :: "string \<Rightarrow> Failure + PayReq"
  queryRoutes ::
    "string \<Rightarrow> number \<Rightarrow> number \<Rightarrow> number \<Rightarrow> string list \<Rightarrow> Failure + Route list"
  trackPayment :: "Buffer \<Rightarrow> Failure + PaymentStatus"

record ClnClient =
  checkPayStatus :: "string \<Rightarrow> Failure + PayStatus option"

record Currency =
  symbol :: string
  chainClient :: "ChainClient option"
  lndClient :: "LndClient option"
  clnClient :: "ClnClient option"

subsection \<open>Timeouts of submarine swaps\<close>

definition supportsMpp :: "PayReq \<Rightarrow> bool" where
  "supportsMpp decodedInvoice =
     list_ex (\<lambda>val. val)
       (map (\<lambda>(k, feature). feature_name feature = ''multi-path-payments'' \<and>
                (isKnown feature \<or> isRequired feature))
          (featuresMap decodedInvoice))"

text \<open>Every failure inside \<open>checkRoutability\<close> is caught and answered by \<open>noRoutes\<close>.\<close>

definition checkRoutability :: "LndClient \<Rightarrow> PayReq \<Rightarrow> number \<Rightarrow> number" where
  "checkRoutability lnd decodedInvoice cltvLimit =
     (let amountToQuery =
            Math_max
              (if supportsMpp decodedInvoice
               then Math_ceil (numSatoshis decodedInvoice / paymentMaxParts lnd)
               else numSatoshis decodedInvoice)
              1
      in case queryRoutes lnd (destination decodedInvoice) amountToQuery cltvLimit
                (cltvExpiry decodedInvoice) (routeHintsList decodedInvoice) of
           Inl error \<Rightarrow> noRoutes
         | Inr routesList \<Rightarrow>
             foldl (\<lambda>highest r. if highest > totalTimeLock r then highest else totalTimeLock r)
               noRoutes routesList)"

definition getTimeoutInvoice ::
  "(string \<rightharpoonup> Currency) \<Rightarrow> string \<Rightarrow> string \<Rightarrow> PairTimeoutBlocksDelta \<Rightarrow>
     PairTimeoutBlocksDelta \<Rightarrow> string \<Rightarrow> Error + (number \<times> bool)" where
  "getTimeoutInvoice currencies chainCurrency lightningCurrency chainTimeout
       lightningTimeout invoice =
     (case currencies lightningCurrency of
        None \<Rightarrow> Inl TypeError
      | Some currency \<Rightarrow>
         (case lndClient currency of
            None \<Rightarrow> Inl TypeError
          | Some lnd \<Rightarrow>
             (case decodePayReqRawResponse lnd invoice of
                Inl e \<Rightarrow> Inl (Rejected e)
              | Inr decodedInvoice \<Rightarrow>
                 (let routeTimeLock =
                        checkRoutability lnd decodedInvoice (swapMaximal lightningTimeout)
                  in case chainClient currency of
                       None \<Rightarrow> Inl TypeError
                     | Some chain \<Rightarrow>
                        (case getBlockchainInfo chain of
                           Inl e \<Rightarrow> Inl (Rejected e)
                         | Inr chainInfo \<Rightarrow>
                            (if routeTimeLock = noRoutes
                             then Inr (swapMaximal chainTimeout, False)
                             else
                               (let routeDeltaRelative = routeTimeLock - blocks chainInfo;
                                    routeDeltaMinutes =
                                      Math_ceil
                                        (routeDeltaRelative * getBlockTime lightningCurrency);
                                    finalExpiry = routeDeltaMinutes + routingOffset;
                                    minTimeout =
                                      Math_ceil (finalExpiry / getBlockTime chainCurrency)
                                in if minTimeout > swapMaximal chainTimeout
                                   then Inl (MIN_EXPIRY_TOO_BIG
                                          (Math_ceil (swapMaximal chainTimeout *
                                             getBlockTime chainCurrency))
                                          routeDeltaMinutes)
                                   else Inr (Math_max (swapMinimal chainTimeout) minTimeout,
                                             True))))))))"

text \<open>\<open>getTimeout\<close>: the test \<open>invoice ? ... : ...\<close> takes an empty string as no invoice.\<close>

definition getTimeout ::
  "Utils \<Rightarrow> (string \<rightharpoonup> PairTimeoutBlockDeltas) \<Rightarrow> (string \<rightharpoonup> Currency) \<Rightarrow> string \<Rightarrow>
     OrderSide \<Rightarrow> bool \<Rightarrow> string option \<Rightarrow> Error + (number \<times> bool)" where
  "getTimeout U tds currencies pairId orderSide isReverse invoice =
     (case tds pairId of
        None \<Rightarrow> Inl (PAIR_NOT_FOUND pairId)
      | Some timeouts \<Rightarrow>
         (if isReverse
          then Inr (if orderSide = BUY then reverse (base timeouts)
                    else reverse (quote timeouts), False)
          else
            (case splitPairId U pairId of
               (b, q) \<Rightarrow>
                 (let chain = getChainCurrency U b q orderSide False;
                      lightning = getLightningCurrency U b q orderSide False;
                      chainDeltas = (if orderSide = BUY then quote timeouts else base timeouts);
                      lightningDeltas =
                        (if orderSide = BUY then base timeouts else quote timeouts)
                  in case invoice of
                       None \<Rightarrow> Inr (swapMinimal chainDeltas, True)
                     | Some i \<Rightarrow>
                        (if i \<noteq> []
                         then getTimeoutInvoice currencies chain lightning chainDeltas
                                lightningDeltas i
                         else Inr (swapMinimal chainDeltas, True))))))"

section \<open>Service\<close>

text \<open>An object literal: its fields in order. Reading a field that is not there gives
  \<open>undefined\<close>.\<close>

datatype JsValue =
    JNum number | JStr string | JBool bool | JSide OrderSide | JStatus SwapUpdateEvent
  | JUndefined

type_synonym JsObject = "(string \<times> JsValue) list"

definition getProp :: "JsObject \<Rightarrow> string \<Rightarrow> JsValue" where
  "getProp obj k = (case map_of obj k of Some v \<Rightarrow> v | None \<Rightarrow> JUndefined)"

datatype OutputType = Bech32 | Compatibility | LegacyOutput

record Limits =
  maximal :: number
  minimal :: number

record PairType =
  rate :: number
  limits :: "Limits option"

record Wallet =
  supportsSegwit :: bool

text \<open>A call of the swap manager, with the arguments in the order the service passes
  them.\<close>

datatype SwapManagerCall =
    CreateSwapCall string string string OrderSide string number Buffer OutputType number bool
  | CreateReverseSwapCall string string OrderSide number number Buffer OutputType number

text \<open>The collaborators of the service, none of them among the files modelled here: the rate
  provider's pairs and zero-conf policy, the timeout provider as this service calls
  it, the fee provider (base fee, percentage fee), the swap manager, the wallets, the
  identifier that \<open>generateId\<close> draws, and \<open>encodeBip21\<close>.\<close>

record Service =
  allowReverseSwaps :: bool
  rateProviderPairs :: "string \<rightharpoonup> PairType"
  acceptZeroConf :: "string \<Rightarrow> number \<Rightarrow> bool"
  providerGetTimeout :: "string \<Rightarrow> OrderSide \<Rightarrow> SwapType \<Rightarrow> Error + number"
  getFees :: "string \<Rightarrow> number \<Rightarrow> OrderSide \<Rightarrow> number \<Rightarrow> SwapType \<Rightarrow> Failure + number \<times> number"
  swapManagerCreateSwap :: "SwapManagerCall \<Rightarrow> Failure + JsObject"
  swapManagerCreateReverseSwap :: "SwapManagerCall \<Rightarrow> Failure + JsObject"
  wallets :: "string \<rightharpoonup> Wallet"
  generateId :: string
  encodeBip21 :: "string \<Rightarrow> JsValue \<Rightarrow> number \<Rightarrow> string \<Rightarrow> string"

text \<open>Below, a primed name (\<open>rate'\<close>, \<open>id'\<close>, \<open>acceptZeroConf'\<close>) is the local variable
  the source names without the prime.\<close>

text \<open>What the service changes: the rows of the two repositories, each row the object
  literal handed to \<open>addSwap\<close> or \<open>addReverseSwap\<close>, and the calls made to the swap
  manager.\<close>

record ServiceState =
  swaps :: "JsObject list"
  reverseSwaps :: "JsObject list"
  swapManagerCalls :: "SwapManagerCall list"

definition getSwapByInvoice :: "ServiceState \<Rightarrow> string \<Rightarrow> JsObject option" where
  "getSwapByInvoice st invoice =
     find (\<lambda>row. map_of row ''invoice'' = Some (JStr invoice)) (swaps st)"

definition getPair :: "Utils \<Rightarrow> Service \<Rightarrow> string \<Rightarrow> Error + string \<times> string \<times> PairType" where
  "getPair U this pairId =
     (case splitPairId U pairId of
        (b, q) \<Rightarrow>
          (case rateProviderPairs this pairId of
             None \<Rightarrow> Inl (PAIR_NOT_FOUND pairId)
           | Some pair \<Rightarrow> Inr (b, q, pair)))"

text \<open>\<open>toLowerCase\<close> on the ASCII letters.\<close>

definition toLowerCase :: "string \<Rightarrow> string" where
  "toLowerCase s =
     map (\<lambda>c. if 65 \<le> (of_char c :: nat) \<and> (of_char c :: nat) \<le> 90
              then char_of ((of_char c :: nat) + 32) else c) s"

definition getOrderSide :: "string \<Rightarrow> Error + OrderSide" where
  "getOrderSide side =
     (if toLowerCase side = ''buy'' then Inr BUY
      else if toLowerCase side = ''sell'' then Inr SELL
      else Inl (ORDER_SIDE_NOT_FOUND side))"

definition getSwapOutputType :: "Service \<Rightarrow> string \<Rightarrow> bool \<Rightarrow> Error + OutputType" where
  "getSwapOutputType this chainCurrency isReverse =
     (case wallets this chainCurrency of
        None \<Rightarrow> Inl (CURRENCY_NOT_FOUND chainCurrency)
      | Some wallet \<Rightarrow>
         (if \<not> supportsSegwit wallet then Inr LegacyOutput
          else Inr (if isReverse then Bech32 else Compatibility)))"

definition verifyAmount ::
  "Utils \<Rightarrow> Service \<Rightarrow> string \<Rightarrow> number \<Rightarrow> number \<Rightarrow> OrderSide \<Rightarrow> SwapType \<Rightarrow> Error + unit" where
  "verifyAmount U this pairId rate' amount orderSide type =
     (let isReverse = (type = ReverseSubmarine);
          amount = (if (\<not> isReverse \<and> orderSide = BUY) \<or> (isReverse \<and> orderSide = SELL)
                    then Math_floor (toDouble (amount * rate')) else amount)
      in case getPair U this pairId of
           Inl e \<Rightarrow> Inl e
         | Inr (b, q, pair) \<Rightarrow>
            (case limits pair of
               Some lims \<Rightarrow>
                 (if Math_floor amount > maximal lims
                  then Inl (EXCEED_MAXIMAL_AMOUNT amount (maximal lims))
                  else if Math_ceil amount < minimal lims
                  then Inl (BENEATH_MINIMAL_AMOUNT amount (minimal lims))
                  else Inr ())
             | None \<Rightarrow> Inl (PAIR_NOT_FOUND pairId)))"

definition createSwap ::
  "Utils \<Rightarrow> Service \<Rightarrow> ServiceState \<Rightarrow> string \<Rightarrow> string \<Rightarrow> string \<Rightarrow> Buffer \<Rightarrow>
     (Error + JsObject) \<times> ServiceState" where
  "createSwap U this st pairId orderSide invoice refundPublicKey =
     (case getSwapByInvoice st invoice of
        Some swap \<Rightarrow> (Inl SWAP_WITH_INVOICE_EXISTS, st)
      | None \<Rightarrow>
     (case getPair U this pairId of
        Inl e \<Rightarrow> (Inl e, st)
      | Inr (b, q, pair) \<Rightarrow>
     (case getOrderSide orderSide of
        Inl e \<Rightarrow> (Inl e, st)
      | Inr side \<Rightarrow>
     (let chainCurrency = getChainCurrency U b q side False;
          lightningCurrency = getLightningCurrency U b q side False
      in case providerGetTimeout this pairId side Submarine of
        Inl e \<Rightarrow> (Inl e, st)
      | Inr timeoutBlockDelta \<Rightarrow>
     (case getInvoiceAmt U invoice of
        Inl f \<Rightarrow> (Inl (Rejected f), st)
      | Inr invoiceAmount \<Rightarrow>
     (let rate' = getRate U (rate pair) side Submarine
      in case verifyAmount U this pairId rate' invoiceAmount side Submarine of
        Inl e \<Rightarrow> (Inl e, st)
      | Inr u \<Rightarrow>
     (case getFees this pairId rate' side invoiceAmount Submarine of
        Inl f \<Rightarrow> (Inl (Rejected f), st)
      | Inr (baseFee, percentageFee) \<Rightarrow>
     (let expectedAmount =
            toDouble (toDouble (Math_ceil (toDouble (invoiceAmount * rate')) + baseFee) +
              percentageFee);
          id' = generateId this;
          acceptZeroConf' = acceptZeroConf this chainCurrency expectedAmount
      in case getSwapOutputType this chainCurrency False of
        Inl e \<Rightarrow> (Inl e, st)
      | Inr outputType \<Rightarrow>
     (let call = CreateSwapCall id' b q side invoice expectedAmount refundPublicKey
                   outputType timeoutBlockDelta acceptZeroConf';
          st1 = st\<lparr>swapManagerCalls := swapManagerCalls st @ [call]\<rparr>
      in case swapManagerCreateSwap this call of
        Inl f \<Rightarrow> (Inl (Rejected f), st1)
      | Inr r \<Rightarrow>
         (let row = [(''id'', JStr id'),
                     (''invoice'', JStr invoice),
                     (''keyIndex'', getProp r ''keyIndex''),
                     (''redeemScript'', getProp r ''redeemScript''),
                     (''acceptZeroConf'', JBool acceptZeroConf'),
                     (''timeoutBlockHeight'', getProp r ''timeoutBlockHeight''),
                     (''pair'', JStr pairId),
                     (''orderSide'', JSide side),
                     (''fee'', JNum percentageFee),
                     (''lockupAddress'', getProp r ''address'')];
              st2 = st1\<lparr>swaps := swaps st1 @ [row]\<rparr>
          in (Inr [(''id'', JStr id'),
                   (''address'', getProp r ''address''),
                   (''redeemScript'', getProp r ''redeemScript''),
                   (''acceptZeroConf'', JBool acceptZeroConf'),
                   (''expectedAmount'', JNum expectedAmount),
                   (''timeoutBlockHeight'', getProp r ''timeoutBlockHeight''),
                   (''bip21'', JStr (encodeBip21 this chainCurrency (getProp r ''address'')
                      expectedAmount (getSwapMemo U lightningCurrency ChainToChain)))],
              st2)))))))))))"

definition createReverseSwap ::
  "Utils \<Rightarrow> Service \<Rightarrow> ServiceState \<Rightarrow> string \<Rightarrow> string \<Rightarrow> number \<Rightarrow> Buffer \<Rightarrow>
     (Error + JsObject) \<times> ServiceState" where
  "createReverseSwap U this st pairId orderSide invoiceAmount claimPublicKey =
     (if \<not> allowReverseSwaps this then (Inl REVERSE_SWAPS_DISABLED, st)
      else
     (case getPair U this pairId of
        Inl e \<Rightarrow> (Inl e, st)
      | Inr (b, q, pair) \<Rightarrow>
     (case getOrderSide orderSide of
        Inl e \<Rightarrow> (Inl e, st)
      | Inr side \<Rightarrow>
     (let rate' = getRate U (rate pair) side ReverseSubmarine
      in case providerGetTimeout this pairId side ReverseSubmarine of
        Inl e \<Rightarrow> (Inl e, st)
      | Inr timeoutBlockDelta \<Rightarrow>
     (case verifyAmount U this pairId rate' invoiceAmount side ReverseSubmarine of
        Inl e \<Rightarrow> (Inl e, st)
      | Inr u \<Rightarrow>
     (case getFees this pairId rate' side invoiceAmount ReverseSubmarine of
        Inl f \<Rightarrow> (Inl (Rejected f), st)
      | Inr (baseFee, percentageFee) \<Rightarrow>
     (let onchainAmount =
            toDouble (Math_floor (toDouble (invoiceAmount * rate')) -
              toDouble (baseFee + percentageFee))
      in if onchainAmount < 1 then (Inl ONCHAIN_AMOUNT_TOO_LOW, st)
         else
     (case getSwapOutputType this (getChainCurrency U b q side True) True of
        Inl e \<Rightarrow> (Inl e, st)
      | Inr outputType \<Rightarrow>
     (let call = CreateReverseSwapCall b q side invoiceAmount onchainAmount claimPublicKey
                   outputType timeoutBlockDelta;
          st1 = st\<lparr>swapManagerCalls := swapManagerCalls st @ [call]\<rparr>
      in case swapManagerCreateReverseSwap this call of
        Inl f \<Rightarrow> (Inl (Rejected f), st1)
      | Inr r \<Rightarrow>
         (let id' = generateId this;
              row = [(''id'', JStr id'),
                     (''invoice'', getProp r ''invoice''),
                     (''minerFee'', getProp r ''minerFee''),
                     (''keyIndex'', getProp r ''keyIndex''),
                     (''redeemScript'', getProp r ''redeemScript''),
                     (''onchainAmount'', JNum onchainAmount),
                     (''timeoutBlockHeight'', getProp r ''timeoutBlockHeight''),
                     (''pair'', JStr pairId),
                     (''orderSide'', JSide side),
                     (''fee'', JNum percentageFee),
                     (''transactionId'', getProp r ''lockupTransactionId''),
                     (''status'', JStatus TransactionMempool)];
              st2 = st1\<lparr>reverseSwaps := reverseSwaps st1 @ [row]\<rparr>
          in (Inr [(''id'', JStr id'),
                   (''invoice'', getProp r ''invoice''),
                   (''redeemScript'', getProp r ''redeemScript''),
                   (''onchainAmount'', JNum onchainAmount),
                   (''lockupTransaction'', getProp r ''lockupTransaction''),
                   (''timeoutBlockHeight'', getProp r ''timeoutBlockHeight''),
                   (''lockupTransactionId'', getProp r ''lockupTransactionId'')],
              st2)))))))))))"

section \<open>MusigSigner\<close>

text \<open>A swap as the co-signer reads it from the database: the fields of \<open>Swap\<close>,
  \<open>ReverseSwap\<close> and \<open>ChainSwapInfo\<close> that it uses. An optional field is \<open>None\<close> when it
  is \<open>undefined\<close>. \<open>preimageHash\<close> and \<open>preimage\<close> are hex strings.\<close>

record Swap =
  swap_id :: string
  pair :: string
  orderSide :: OrderSide
  version :: SwapVersion
  status :: SwapUpdateEvent
  swap_type :: SwapType
  preimageHash :: string
  preimage :: "string option"
  invoice :: "string option"
  redeemScript :: "string option"
  keyIndex :: "number option"
  refundPublicKey :: "string option"
  claimPublicKey :: "string option"

record PartialSignature =
  pubNonce :: Buffer
  signature :: Buffer

datatype SwapTree = SwapTree string

text \<open>The two repositories the co-signer uses, by swap identifier.\<close>

record Repositories =
  swapRepository :: "string \<rightharpoonup> Swap"
  reverseSwapRepository :: "string \<rightharpoonup> Swap"

text \<open>The collaborators of the co-signer, none of them among the files modelled here: the
  currencies, the wallets of the wallet manager, \<open>SwapTreeSerializer.deserializeSwapTree\<close>,
  \<open>createPartialSignature\<close> (with the arguments in the order the co-signer passes them)
  and the nursery's \<open>settleReverseSwapInvoice\<close>, which may change the repositories.\<close>

record MusigSigner =
  currencies :: "string \<rightharpoonup> Currency"
  walletManagerWallets :: "string \<rightharpoonup> Wallet"
  deserializeSwapTree :: "string option \<Rightarrow> Failure + SwapTree"
  createPartialSignature ::
    "Currency option \<Rightarrow> Wallet option \<Rightarrow> SwapTree \<Rightarrow> number option \<Rightarrow> Buffer \<Rightarrow> Buffer \<Rightarrow>
       Buffer \<Rightarrow> number \<Rightarrow> Failure + PartialSignature"
  settleReverseSwapInvoice :: "Swap \<Rightarrow> Buffer \<Rightarrow> Repositories \<Rightarrow> Failure + Repositories"

text \<open>The first \<open>try\<close> block: is there an LND payment whose status is not \<open>FAILED\<close>? An
  error of \<open>trackPayment\<close> is caught and dropped.\<close>

definition lndHasNonFailedPayment :: "Utils \<Rightarrow> Currency \<Rightarrow> Swap \<Rightarrow> bool" where
  "lndHasNonFailedPayment U currency swap =
     (case lndClient currency of
        None \<Rightarrow> False
      | Some lnd \<Rightarrow>
         (case trackPayment lnd (getHexBuffer U (preimageHash swap)) of
            Inl e \<Rightarrow> False
          | Inr pendingPaymentStatus \<Rightarrow> pendingPaymentStatus \<noteq> FAILED))"

text \<open>The second \<open>try\<close> block: does CLN know a payment of the invoice? An error of
  \<open>checkPayStatus\<close> is answered by \<open>true\<close>.\<close>

definition clnHasPayment :: "Currency \<Rightarrow> Swap \<Rightarrow> bool" where
  "clnHasPayment currency swap =
     (case clnClient currency of
        None \<Rightarrow> False
      | Some cln \<Rightarrow>
         (case invoice swap of
            None \<Rightarrow> False
          | Some invoice' \<Rightarrow>
             (case checkPayStatus cln invoice' of
                Inl e \<Rightarrow> True
              | Inr payment \<Rightarrow> payment \<noteq> None)))"

definition hasNonFailedLightningPayment :: "Utils \<Rightarrow> Currency \<Rightarrow> Swap \<Rightarrow> bool" where
  "hasNonFailedLightningPayment U currency swap =
     (if swap_type swap = Chain then False
      else if lndHasNonFailedPayment U currency swap then True
      else if clnHasPayment currency swap then True
      else False)"

definition isEligibleForRefund :: "Utils \<Rightarrow> Swap \<Rightarrow> Currency option \<Rightarrow> bool" where
  "isEligibleForRefund U swap lightningCurrency =
     (status swap \<in> set FailedSwapUpdateEvents \<and>
      (case lightningCurrency of
         None \<Rightarrow> True
       | Some currency \<Rightarrow> \<not> hasNonFailedLightningPayment U currency swap))"

text \<open>The end of \<open>signRefund\<close> and of \<open>signReverseSwapClaim\<close>: the swap tree is read from
  the redeem script, then \<open>createPartialSignature\<close> is called; reading the key of the
  other party (\<open>getHexBuffer(theirPublicKey!)\<close>) fails when the key is \<open>undefined\<close>.\<close>

definition signWith ::
  "Utils \<Rightarrow> MusigSigner \<Rightarrow> Currency option \<Rightarrow> string \<Rightarrow> Swap \<Rightarrow> string option \<Rightarrow> Buffer \<Rightarrow>
     Buffer \<Rightarrow> number \<Rightarrow> Error + PartialSignature" where
  "signWith U this currency currencySymbol swap theirPublicKey theirNonce rawTransaction
       index =
     (case deserializeSwapTree this (redeemScript swap) of
        Inl f \<Rightarrow> Inl (Rejected f)
      | Inr swapTree \<Rightarrow>
         (case theirPublicKey of
            None \<Rightarrow> Inl TypeError
          | Some key \<Rightarrow>
             (case createPartialSignature this currency
                     (walletManagerWallets this currencySymbol) swapTree (keyIndex swap)
                     (getHexBuffer U key) theirNonce rawTransaction index of
                Inl f \<Rightarrow> Inl (Rejected f)
              | Inr partialSignature \<Rightarrow> Inr partialSignature)))"

definition signRefund ::
  "Utils \<Rightarrow> MusigSigner \<Rightarrow> Repositories \<Rightarrow> string \<Rightarrow> Buffer \<Rightarrow> Buffer \<Rightarrow> number \<Rightarrow>
     Error + PartialSignature" where
  "signRefund U this db swapId theirNonce rawTransaction index =
     (case swapRepository db swapId of
        None \<Rightarrow> Inl (SWAP_NOT_FOUND swapId)
      | Some swap \<Rightarrow>
         (case splitPairId U (pair swap) of
            (b, q) \<Rightarrow>
              (case currencies this (getChainCurrency U b q (orderSide swap) False) of
                 None \<Rightarrow> Inl TypeError
               | Some currency \<Rightarrow>
                  (if chainClient currency = None then Inl CURRENCY_NOT_UTXO_BASED
                   else if version swap \<noteq> Taproot \<or>
                           \<not> isEligibleForRefund U swap
                               (currencies this
                                  (getLightningCurrency U b q (orderSide swap) False))
                   then Inl NOT_ELIGIBLE_FOR_COOPERATIVE_REFUND
                   else signWith U this (Some currency) (symbol currency) swap
                          (refundPublicKey swap) theirNonce rawTransaction index))))"

text \<open>Modelled from the spec: \<open>isPreimageValid\<close> of \<open>cooperative/Utils\<close> is outside the
  files modelled here; the spec has "Verify \<open>sha256(preimage) == preimageHash\<close>", the hash
  being stored as a hex string.\<close>

definition isPreimageValid :: "Utils \<Rightarrow> Swap \<Rightarrow> Buffer \<Rightarrow> bool" where
  "isPreimageValid U swap preimg = (getHexString U (sha256 U preimg) = preimageHash swap)"

text \<open>Modelled from the spec: \<open>WrappedSwapRepository.setPreimage\<close> is outside the files
  modelled here; the spec has "Persist the preimage". The row of the swap and the swap
  object the caller holds both get the preimage, as a hex string.\<close>

definition setPreimage :: "Utils \<Rightarrow> Swap \<Rightarrow> Buffer \<Rightarrow> Repositories \<Rightarrow> Swap \<times> Repositories" where
  "setPreimage U swap preimg db =
     (let swap' = swap\<lparr>preimage := Some (getHexString U preimg)\<rparr>
      in (swap', db\<lparr>reverseSwapRepository := (reverseSwapRepository db)(swap_id swap \<mapsto> swap')\<rparr>))"

definition signReverseSwapClaim ::
  "Utils \<Rightarrow> MusigSigner \<Rightarrow> Repositories \<Rightarrow> string \<Rightarrow> Buffer \<Rightarrow> Buffer \<Rightarrow> Buffer \<Rightarrow> number \<Rightarrow>
     (Error + PartialSignature) \<times> Repositories" where
  "signReverseSwapClaim U this db swapId preimg theirNonce rawTransaction index =
     (case reverseSwapRepository db swapId of
        None \<Rightarrow> (Inl (SWAP_NOT_FOUND swapId), db)
      | Some swap \<Rightarrow>
         (if version swap \<noteq> Taproot \<or>
             status swap \<notin> set [TransactionMempool, TransactionConfirmed, InvoiceSettled]
          then (Inl NOT_ELIGIBLE_FOR_COOPERATIVE_CLAIM, db)
          else if \<not> isPreimageValid U swap preimg then (Inl INCORRECT_PREIMAGE, db)
          else
            (case setPreimage U swap preimg db of
               (swap', db1) \<Rightarrow>
                 (case (if status swap' \<noteq> InvoiceSettled
                        then settleReverseSwapInvoice this swap' preimg db1
                        else Inr db1) of
                    Inl f \<Rightarrow> (Inl (Rejected f), db1)
                  | Inr db2 \<Rightarrow>
                     (case splitPairId U (pair swap') of
                        (b, q) \<Rightarrow>
                          (let chainCurrency = getChainCurrency U b q (orderSide swap') True
                           in (signWith U this (currencies this chainCurrency) chainCurrency
                                 swap' (claimPublicKey swap') theirNonce rawTransaction index,
                               db2)))))))"

section \<open>Example values\<close>

text \<open>Concrete collaborators and inputs, used to run the model. \<open>exampleUtils\<close> splits a
  pair identifier at its first slash and reads and writes lower-case hex; its hash is a
  stand-in, and its \<open>getRate\<close> inverts the rate, as doubles are divided, where the amount
  is on the other side of the pair.\<close>

definition exampleHexDigit :: "nat \<Rightarrow> char" where
  "exampleHexDigit n = ''0123456789abcdef'' ! (n mod 16)"

definition exampleHexValue :: "char \<Rightarrow> nat" where
  "exampleHexValue c =
     (if 97 \<le> (of_char c :: nat) then (of_char c :: nat) - 87 else (of_char c :: nat) - 48)"

fun exampleHexBuffer :: "string \<Rightarrow> Buffer" where
  "exampleHexBuffer (a # b # rest) =
     (exampleHexValue a * 16 + exampleHexValue b) # exampleHexBuffer rest"
| "exampleHexBuffer rest = []"

definition exampleUtils :: Utils where
  "exampleUtils =
     \<lparr>splitPairId = (\<lambda>s. (takeWhile (\<lambda>c. c \<noteq> CHR ''/'') s,
                            drop 1 (dropWhile (\<lambda>c. c \<noteq> CHR ''/'') s))),
      getPairId = (\<lambda>p. pc_base p @ ''/'' @ pc_quote p),
      getChainCurrency = (\<lambda>b q side isReverse.
         if isReverse then (if side = BUY then b else q) else (if side = BUY then q else b)),
      getLightningCurrency = (\<lambda>b q side isReverse.
         if isReverse then (if side = BUY then q else b) else (if side = BUY then b else q)),
      getHexBuffer = exampleHexBuffer,
      getHexString = (\<lambda>bytes.
         concat (map (\<lambda>n. [exampleHexDigit (n div 16), exampleHexDigit n]) bytes)),
      sha256 = map (\<lambda>x. (x + 1) mod 256),
      getRate = (\<lambda>r side type.
         if (type = ReverseSubmarine) = (side = BUY) then toDouble (1 / r) else r),
      getInvoiceAmt = (\<lambda>i. if i = ''lnbc1m'' then Inr 100000
                            else Inl (Failure ''not a payment request'')),
      getSwapMemo = (\<lambda>s type. ''Send to '' @ s)\<rparr>"

definition examplePairs :: "PairConfig list" where
  "examplePairs =
     [\<lparr>pc_base = ''LTC'', pc_quote = ''BTC'', pc_rate = None, pc_fee = 1,
       timeoutDelta = Some (Minutes 1440)\<rparr>,
      \<lparr>pc_base = ''BTC'', pc_quote = ''BTC'', pc_rate = Some 1, pc_fee = 1 / 2,
       timeoutDelta = Some (Table \<lparr>reverse = 1440, swapMinimal = 1440, swapMaximal = 2880\<rparr>)\<rparr>]"

definition exampleProvider :: "string TimeoutDeltaProvider" where
  "exampleProvider =
     \<lparr>timeoutDeltas =
        [''LTC/BTC'' \<mapsto>
           \<lparr>base = \<lparr>reverse = 576, swapMinimal = 576, swapMaximal = 576\<rparr>,
            quote = \<lparr>reverse = 144, swapMinimal = 144, swapMaximal = 144\<rparr>\<rparr>,
         ''BTC/BTC'' \<mapsto>
           \<lparr>base = \<lparr>reverse = 144, swapMinimal = 144, swapMaximal = 288\<rparr>,
            quote = \<lparr>reverse = 144, swapMinimal = 144, swapMaximal = 288\<rparr>\<rparr>],
      config = \<lparr>configpath = ''/boltz.conf'', pairs = examplePairs, others = ''loglevel''\<rparr>,
      disk = \<lparr>files = Map.empty, fsOps = []\<rparr>\<rparr>"

definition exampleStringify :: "string ConfigType \<Rightarrow> string" where
  "exampleStringify c = concat (map (\<lambda>p. pc_base p @ ''/'' @ pc_quote p @ '';'') (pairs c)) @ others c"

text \<open>The words of the spec on how \<open>setTimeout\<close> rewrites the file, "write to temp,
  rename", as a predicate on the file operations performed: the contents are written
  to a path other than the configuration's, which is then renamed to it.\<close>

definition spec_writeTempThenRename :: "FsOp list \<Rightarrow> string \<Rightarrow> string \<Rightarrow> bool" where
  "spec_writeTempThenRename ops path contents =
     (case ops of
        [WriteFileSync tmp c, RenameSync src dst] \<Rightarrow>
          tmp \<noteq> path \<and> c = contents \<and> src = tmp \<and> dst = path
      | _ \<Rightarrow> False)"

definition exampleLnd :: LndClient where
  "exampleLnd =
     \<lparr>paymentMaxParts = 3,
      decodePayReqRawResponse = (\<lambda>i.
         if i = ''lnbc1m''
         then Inr \<lparr>numSatoshis = 100000, destination = ''02abc'', cltvExpiry = 40,
                   routeHintsList = [],
                   featuresMap = [(17, \<lparr>feature_name = ''multi-path-payments'',
                                        isKnown = True, isRequired = False\<rparr>)]\<rparr>
         else Inl (Failure ''not a payment request'')),
      queryRoutes = (\<lambda>dest amt cltvLimit expiry hints.
         if dest = ''02abc''
         then Inr [\<lparr>totalTimeLock = 800200\<rparr>, \<lparr>totalTimeLock = 800400\<rparr>]
         else Inl (Failure ''unable to find a path'')),
      trackPayment = (\<lambda>h. Inl (Failure ''payment not found''))\<rparr>"

definition exampleCurrency :: Currency where
  "exampleCurrency =
     \<lparr>symbol = ''BTC'',
      chainClient = Some \<lparr>getBlockchainInfo = Inr \<lparr>blocks = 800000\<rparr>\<rparr>,
      lndClient = Some exampleLnd,
      clnClient = None\<rparr>"

definition exampleCurrencies :: "string \<rightharpoonup> Currency" where
  "exampleCurrencies = [''BTC'' \<mapsto> exampleCurrency]"

text \<open>The doubles written \<open>0.3333333333333333\<close> and \<open>0.1\<close>.\<close>

definition exampleRateThird :: number where
  "exampleRateThird = 6004799503160661 / 18014398509481984"

definition exampleRateTenth :: number where
  "exampleRateTenth = 3602879701896397 / 36028797018963968"

text \<open>A service with three pairs, at the rates 1, \<open>0.3333333333333333\<close> and \<open>0.1\<close>.\<close>

definition exampleService :: Service where
  "exampleService =
     \<lparr>allowReverseSwaps = True,
      rateProviderPairs =
        [''BTC/BTC'' \<mapsto> \<lparr>rate = 1, limits = Some \<lparr>maximal = 4294967, minimal = 1000\<rparr>\<rparr>,
         ''LTC/BTC'' \<mapsto>
           \<lparr>rate = exampleRateThird,
            limits = Some \<lparr>maximal = 4294967, minimal = 1000\<rparr>\<rparr>,
         ''L-BTC/BTC'' \<mapsto>
           \<lparr>rate = exampleRateTenth,
            limits = Some \<lparr>maximal = 4294967, minimal = 1000\<rparr>\<rparr>],
      acceptZeroConf = (\<lambda>s amount. amount \<le> 1000000),
      providerGetTimeout = (\<lambda>pairId side type.
         if pairId \<in> {''BTC/BTC'', ''LTC/BTC'', ''L-BTC/BTC''} then Inr 144
         else Inl (PAIR_NOT_FOUND pairId)),
      getFees = (\<lambda>pairId r side amount type.
         if amount = 1000 then Inr (500, 600) else Inr (500, 1000)),
      swapManagerCreateSwap = (\<lambda>call.
         Inr [(''address'', JStr ''bcrt1qswap''), (''keyIndex'', JNum 7),
              (''redeemScript'', JStr ''a914''), (''timeoutBlockHeight'', JNum 800144)]),
      swapManagerCreateReverseSwap = (\<lambda>call.
         Inr [(''invoice'', JStr ''lnbc1hold''), (''minerFee'', JNum 300),
              (''keyIndex'', JNum 8), (''redeemScript'', JStr ''8201''),
              (''lockupTransaction'', JStr ''0200''), (''timeoutBlockHeight'', JNum 800144),
              (''lockupTransactionId'', JStr ''f00d'')]),
      wallets = [''BTC'' \<mapsto> \<lparr>supportsSegwit = True\<rparr>],
      generateId = ''a1b2c3'',
      encodeBip21 = (\<lambda>s address amount memo. ''bitcoin:?label='' @ memo)\<rparr>"

definition emptyServiceState :: ServiceState where
  "emptyServiceState = \<lparr>swaps = [], reverseSwaps = [], swapManagerCalls = []\<rparr>"

definition exampleSigner :: MusigSigner where
  "exampleSigner =
     \<lparr>currencies = exampleCurrencies,
      walletManagerWallets = [''BTC'' \<mapsto> \<lparr>supportsSegwit = True\<rparr>],
      deserializeSwapTree = (\<lambda>script.
         case script of
           None \<Rightarrow> Inl (Failure ''no redeem script'')
         | Some tree \<Rightarrow> Inr (SwapTree tree)),
      createPartialSignature = (\<lambda>currency wallet tree key theirKey nonce tx i.
         Inr \<lparr>pubNonce = [1, 2, 3], signature = [4, 5, 6]\<rparr>),
      settleReverseSwapInvoice = (\<lambda>swap preimg db.
         Inr (db\<lparr>reverseSwapRepository :=
                (reverseSwapRepository db)(swap_id swap \<mapsto> swap\<lparr>status := InvoiceSettled\<rparr>)\<rparr>))\<rparr>"

text \<open>The same currency with an LND whose \<open>trackPayment\<close> reports a payment in flight,
  and a co-signer over it.\<close>

definition exampleCurrencyInFlight :: Currency where
  "exampleCurrencyInFlight =
     exampleCurrency\<lparr>lndClient := Some (exampleLnd\<lparr>trackPayment := (\<lambda>h. Inr IN_FLIGHT)\<rparr>)\<rparr>"

definition exampleSignerInFlight :: MusigSigner where
  "exampleSignerInFlight = exampleSigner\<lparr>currencies := [''BTC'' \<mapsto> exampleCurrencyInFlight]\<rparr>"

text \<open>The same currency with a CLN client besides, each client failing its call.\<close>

definition exampleCurrencyFailing :: Currency where
  "exampleCurrencyFailing =
     exampleCurrency\<lparr>clnClient :=
       Some \<lparr>checkPayStatus = (\<lambda>i. Inl (Failure ''connection refused''))\<rparr>\<rparr>"

definition exampleSwap :: Swap where
  "exampleSwap =
     \<lparr>swap_id = ''sub1'', pair = ''BTC/BTC'', orderSide = BUY, version = Taproot,
      status = SwapExpired, swap_type = Submarine, preimageHash = ''0a0b'',
      preimage = None, invoice = Some ''lnbc1m'', redeemScript = Some ''c0'',
      keyIndex = Some 7, refundPublicKey = Some ''02ab'', claimPublicKey = None\<rparr>"

definition exampleReverseSwap :: Swap where
  "exampleReverseSwap =
     \<lparr>swap_id = ''rev1'', pair = ''BTC/BTC'', orderSide = BUY, version = Taproot,
      status = TransactionMempool, swap_type = ReverseSubmarine, preimageHash = ''030405'',
      preimage = None, invoice = Some ''lnbc1hold'', redeemScript = Some ''c1'',
      keyIndex = Some 8, refundPublicKey = None, claimPublicKey = Some ''03cd''\<rparr>"

definition exampleRepositories :: Repositories where
  "exampleRepositories =
     \<lparr>swapRepository = [''sub1'' \<mapsto> exampleSwap],
      reverseSwapRepository =
        [''rev1'' \<mapsto> exampleReverseSwap,
         ''rev2'' \<mapsto> exampleReverseSwap\<lparr>swap_id := ''rev2'', status := SwapCreated\<rparr>]\<rparr>"

section \<open>Rounding to doubles\<close>

text \<open>\<open>binade x\<close> is the exponent of the binade of \<open>x\<close>, so that \<open>toDouble\<close> can be evaluated
  from any exponent \<open>e\<close> with \<open>2^e \<le> |x| < 2^(e+1)\<close>. A whole number below \<open>2^53\<close> in
  absolute value is a double, and \<open>toDouble\<close> moves no number by more than its \<open>2^53\<close>th
  part.\<close>

lemma binade_bounds:
  assumes "x \<noteq> 0"
  shows "2 powi binade x \<le> \<bar>x\<bar> \<and> \<bar>x\<bar> < 2 powi (binade x + 1)"
proof (cases "1 \<le> \<bar>x\<bar>")
  case True
  define n where "n = \<lfloor>\<bar>x\<bar>\<rfloor>"
  have npos: "0 < n" using True by (simp add: n_def)
  have b: "binade x = bitlen n - 1" using True by (simp add: binade_def n_def)
  have bl: "1 \<le> bitlen n" using npos bitlen_eq_zero_iff [of n] bitlen_nonneg [of n] by linarith
  from bitlen_bounds [OF npos] have lo: "2 ^ nat (bitlen n - 1) \<le> n" and hi: "n < 2 ^ nat (bitlen n)"
    by auto
  have "(2::real) powi (bitlen n - 1) = 2 ^ nat (bitlen n - 1)"
    using bl by (simp add: power_int_nonneg_exp)
  also have "\<dots> \<le> of_int n" using lo by (metis of_int_le_iff of_int_numeral of_int_power)
  also have "\<dots> \<le> \<bar>x\<bar>" by (simp add: n_def)
  finally have 1: "2 powi binade x \<le> \<bar>x\<bar>" by (simp add: b)
  have "n + 1 \<le> 2 ^ nat (bitlen n)" using hi by simp
  then have "(of_int (n + 1) :: real) \<le> 2 ^ nat (bitlen n)"
    by (metis of_int_le_iff of_int_numeral of_int_power)
  moreover have "\<bar>x\<bar> < of_int (n + 1)" unfolding n_def by linarith
  ultimately have "\<bar>x\<bar> < 2 ^ nat (bitlen n)" by linarith
  also have "\<dots> = 2 powi (bitlen n)" using bl by (simp add: power_int_nonneg_exp)
  finally have 2: "\<bar>x\<bar> < 2 powi (binade x + 1)" by (simp add: b)
  show ?thesis using 1 2 by simp
next
  case False
  define y where "y = 1 / \<bar>x\<bar>"
  define m where "m = \<lceil>y\<rceil> - 1"
  have xpos: "0 < \<bar>x\<bar>" using assms by simp
  have y1: "1 < y" using False xpos by (simp add: y_def)
  have mpos: "0 < m" using y1 unfolding m_def by (simp add: less_ceiling_iff)
  have b: "binade x = - bitlen m" using False by (simp add: binade_def m_def y_def)
  have bl: "1 \<le> bitlen m" using mpos bitlen_eq_zero_iff [of m] bitlen_nonneg [of m] by linarith
  from bitlen_bounds [OF mpos] have lo: "2 ^ nat (bitlen m - 1) \<le> m" and hi: "m < 2 ^ nat (bitlen m)"
    by auto
  have ym: "of_int m < y" "y \<le> of_int m + 1" unfolding m_def by linarith+
  have "m + 1 \<le> 2 ^ nat (bitlen m)" using hi by simp
  then have "(of_int (m + 1) :: real) \<le> 2 ^ nat (bitlen m)"
    by (metis of_int_le_iff of_int_numeral of_int_power)
  then have yle: "y \<le> 2 ^ nat (bitlen m)" using ym by simp
  have "(2::real) ^ nat (bitlen m - 1) \<le> of_int m"
    using lo by (metis of_int_le_iff of_int_numeral of_int_power)
  then have ygt: "2 ^ nat (bitlen m - 1) < y" using ym by linarith
  have xy: "\<bar>x\<bar> = 1 / y" using xpos by (simp add: y_def)
  have p1: "(2::real) powi (- bitlen m) = 1 / 2 ^ nat (bitlen m)"
    using bl by (simp add: power_int_minus_divide power_int_nonneg_exp)
  have p2: "(2::real) powi (- bitlen m + 1) = 1 / 2 ^ nat (bitlen m - 1)"
  proof -
    have "- bitlen m + 1 = - (bitlen m - 1)" by simp
    then show ?thesis using bl by (simp only: power_int_minus_divide) (simp add: power_int_nonneg_exp)
  qed
  have 1: "2 powi binade x \<le> \<bar>x\<bar>"
    unfolding b p1 xy using yle y1 by (simp add: frac_le)
  have 2: "\<bar>x\<bar> < 2 powi (binade x + 1)"
    unfolding b p2 xy using ygt by (simp add: frac_less2)
  show ?thesis using 1 2 by simp
qed

lemma binade_unique:
  assumes "2 powi e \<le> \<bar>x\<bar>" and "\<bar>x\<bar> < 2 powi (e + 1)"
  shows "binade x = e"
proof -
  have nz: "x \<noteq> 0"
  proof
    assume "x = 0"
    with assms(1) have "(2::real) powi e \<le> 0" by simp
    moreover have "0 < (2::real) powi e" by (rule zero_less_power_int) simp
    ultimately show False by linarith
  qed
  from binade_bounds [OF nz]
  have lo: "2 powi binade x \<le> \<bar>x\<bar>" and hi: "\<bar>x\<bar> < 2 powi (binade x + 1)" by auto
  have "(2::real) powi e < 2 powi (binade x + 1)" using assms(1) hi by linarith
  then have 1: "e < binade x + 1"
    by (metis power_int_increasing not_le one_le_numeral)
  have "(2::real) powi binade x < 2 powi (e + 1)" using lo assms(2) by linarith
  then have 2: "binade x < e + 1"
    by (metis power_int_increasing not_le one_le_numeral)
  show ?thesis using 1 2 by simp
qed

lemma toDouble_eval:
  assumes "2 powi e \<le> \<bar>x\<bar>" and "\<bar>x\<bar> < 2 powi (e + 1)"
  shows "toDouble x = of_int (roundTiesToEven (x / 2 powi (e - 52))) * 2 powi (e - 52)"
proof -
  have nz: "x \<noteq> 0"
  proof
    assume "x = 0"
    with assms(1) have "(2::real) powi e \<le> 0" by simp
    moreover have "0 < (2::real) powi e" by (rule zero_less_power_int) simp
    ultimately show False by linarith
  qed
  show ?thesis using nz by (simp add: toDouble_def binade_unique [OF assms])
qed

lemma roundTiesToEven_of_int [simp]: "roundTiesToEven (of_int n) = n"
  by (simp add: roundTiesToEven_def)

lemma roundTiesToEven_error: "\<bar>of_int (roundTiesToEven y) - y\<bar> \<le> 1 / 2"
proof -
  have "of_int \<lfloor>y\<rfloor> \<le> y" "y < of_int \<lfloor>y\<rfloor> + 1" by linarith+
  then show ?thesis by (auto simp: roundTiesToEven_def Let_def)
qed

lemma toDouble_dyadic:
  assumes "\<bar>m\<bar> < 2 ^ 53"
  shows "toDouble (of_int m * 2 powi k) = of_int m * 2 powi k"
proof (cases "m = 0")
  case True
  then show ?thesis by (simp add: toDouble_def)
next
  case False
  define x :: real where "x = of_int m * 2 powi k"
  have nz: "x \<noteq> 0" using False by (simp add: x_def)
  define e where "e = binade x"
  from binade_bounds [OF nz] have lo: "2 powi e \<le> \<bar>x\<bar>" by (simp add: e_def)
  have "\<bar>x\<bar> = of_int \<bar>m\<bar> * 2 powi k" by (simp add: x_def abs_mult)
  also have "\<dots> < 2 ^ 53 * 2 powi k"
  proof -
    have "(of_int \<bar>m\<bar> :: real) < of_int (2 ^ 53)" using assms by (simp only: of_int_less_iff)
    then show ?thesis by simp
  qed
  also have "\<dots> = 2 powi (53 + k)" by (simp add: power_int_add)
  finally have "(2::real) powi e < 2 powi (53 + k)" using lo by linarith
  then have "e < 53 + k" by (metis power_int_increasing not_le one_le_numeral)
  then have ge: "0 \<le> k - (e - 52)" by simp
  have "x / 2 powi (e - 52) = of_int m * (2 powi k / 2 powi (e - 52))" by (simp add: x_def)
  also have "2 powi k / (2::real) powi (e - 52) = 2 powi (k - (e - 52))"
    by (simp add: power_int_diff)
  also have "\<dots> = 2 ^ nat (k - (e - 52))" using ge by (simp add: power_int_nonneg_exp)
  also have "of_int m * (2::real) ^ nat (k - (e - 52)) = of_int (m * 2 ^ nat (k - (e - 52)))"
    by simp
  finally have "x / 2 powi (e - 52) = of_int (m * 2 ^ nat (k - (e - 52)))" .
  then have "toDouble x = of_int (m * 2 ^ nat (k - (e - 52))) * 2 powi (e - 52)"
    using nz by (simp only: toDouble_def e_def [symmetric] roundTiesToEven_of_int if_False)
  also have "\<dots> = x / 2 powi (e - 52) * 2 powi (e - 52)"
    using \<open>x / 2 powi (e - 52) = of_int (m * 2 ^ nat (k - (e - 52)))\<close> by simp
  also have "\<dots> = x" by simp
  finally show ?thesis by (simp add: x_def)
qed

lemma toDouble_of_int:
  "\<bar>n\<bar> < 2 ^ 53 \<Longrightarrow> toDouble (of_int n) = of_int n"
  using toDouble_dyadic [of n 0] by simp

lemma toDouble_error:
  "\<bar>toDouble x - x\<bar> \<le> \<bar>x\<bar> / 2 ^ 53"
proof (cases "x = 0")
  case True
  then show ?thesis by (simp add: toDouble_def)
next
  case False
  define u :: real where "u = 2 powi (binade x - 52)"
  have upos: "0 < u" by (simp add: u_def)
  from binade_bounds [OF False] have lo: "2 powi binade x \<le> \<bar>x\<bar>" by simp
  have "2 powi binade x = u * 2 ^ 52"
    by (simp add: u_def power_int_diff)
  then have ux: "u \<le> \<bar>x\<bar> / 2 ^ 52" using lo by (simp add: field_simps)
  have "toDouble x - x = (of_int (roundTiesToEven (x / u)) - x / u) * u"
    using False upos by (simp add: toDouble_def u_def field_simps)
  then have "\<bar>toDouble x - x\<bar> = \<bar>of_int (roundTiesToEven (x / u)) - x / u\<bar> * u"
    using upos by (simp add: abs_mult)
  also have "\<dots> \<le> 1 / 2 * u"
    using roundTiesToEven_error [of "x / u"] upos by (simp add: mult_right_mono)
  also have "\<dots> \<le> 1 / 2 * (\<bar>x\<bar> / 2 ^ 52)" using ux by simp
  also have "\<dots> = \<bar>x\<bar> / 2 ^ 53" by simp
  finally show ?thesis .
qed




lemma toDouble_numeral:
  "(numeral k :: int) < 2 ^ 53 \<Longrightarrow> toDouble (numeral k) = numeral k"
  using toDouble_of_int [of "numeral k"] by simp

lemma toDouble_neg_numeral:
  "(numeral k :: int) < 2 ^ 53 \<Longrightarrow> toDouble (- numeral k) = - numeral k"
  using toDouble_of_int [of "- numeral k"] by simp

lemma toDouble_one: "toDouble 1 = 1"
  using toDouble_of_int [of 1] by simp

lemma toDouble_whole_product:
  assumes "0 \<le> x" and "x < 2 ^ 51"
  shows "0 \<le> \<lfloor>toDouble x\<rfloor>" and "\<lfloor>toDouble x\<rfloor> \<le> 2 ^ 51"
    and "0 \<le> \<lceil>toDouble x\<rceil>" and "\<lceil>toDouble x\<rceil> \<le> 2 ^ 51 + 1"
    and "toDouble x \<le> x + x / 2 ^ 53"
proof -
  have err: "\<bar>toDouble x - x\<bar> \<le> x / 2 ^ 53"
    using toDouble_error [of x] assms(1) by simp
  have small: "x / 2 ^ 53 < 1 / 4"
    using assms(2) by simp
  have lo: "0 \<le> toDouble x"
  proof -
    have "x / 2 ^ 53 \<le> x"
      using assms(1) by (simp add: divide_le_eq)
    then show ?thesis using err by linarith
  qed
  have hi: "toDouble x < 2 ^ 51 + 1"
    using err small assms(2) by linarith
  show "0 \<le> \<lfloor>toDouble x\<rfloor>" using lo by simp
  show "0 \<le> \<lceil>toDouble x\<rceil>" using lo by (simp add: le_ceiling_iff)
  have "\<lfloor>toDouble x\<rfloor> < 2 ^ 51 + 1"
    using hi by (simp add: floor_less_iff)
  then show "\<lfloor>toDouble x\<rfloor> \<le> 2 ^ 51" by simp
  have "toDouble x \<le> of_int (2 ^ 51 + 1)"
    using hi by simp
  then show "\<lceil>toDouble x\<rceil> \<le> 2 ^ 51 + 1"
    by (simp only: ceiling_le_iff)
  show "toDouble x \<le> x + x / 2 ^ 53" using err by linarith
qed

section \<open>Block times and block counts\<close>


lemma getBlockTime_table:
  "getBlockTime ''BTC'' = 10" "getBlockTime ''LTC'' = 5 / 2" "getBlockTime ''ETH'' = 1 / 5"
  "getBlockTime ''L-BTC'' = 1"
  by (simp_all add: getBlockTime_def blockTimes_def ElementsClient_symbol_def)

lemma getBlockTime_fallback:
  "s \<notin> {''BTC'', ''LTC'', ''ETH'', ''L-BTC''} \<Longrightarrow> getBlockTime s = 1 / 5"
  by (simp add: getBlockTime_def blockTimes_def ElementsClient_symbol_def)

lemma rem1_eq_0_iff: "rem1 x = 0 \<longleftrightarrow> x \<in> \<int>"
proof
  assume "rem1 x = 0"
  then have "x = of_int (if 0 \<le> x then \<lfloor>x\<rfloor> else \<lceil>x\<rceil>)"
    by (simp add: rem1_def)
  then show "x \<in> \<int>"
    by (metis Ints_of_int)
next
  assume "x \<in> \<int>"
  then obtain k :: int where "x = of_int k"
    by (auto elim: Ints_cases)
  then show "rem1 x = 0"
    by (simp add: rem1_def)
qed

lemma calculateBlocks_eq:
  "calculateBlocks s m =
     (if m / getBlockTime s \<in> \<int> \<and> 1 \<le> m / getBlockTime s
      then Inr (m / getBlockTime s) else Inl INVALID_TIMEOUT_BLOCK_DELTA)"
  by (auto simp: calculateBlocks_def Let_def rem1_eq_0_iff)

lemma convertToBlocks_eq:
  "convertToBlocks d s =
     (if \<forall>m \<in> {reverse d, swapMinimal d, swapMaximal d}.
           m / getBlockTime s \<in> \<int> \<and> 1 \<le> m / getBlockTime s
      then Inr \<lparr>reverse = reverse d / getBlockTime s,
                swapMinimal = swapMinimal d / getBlockTime s,
                swapMaximal = swapMaximal d / getBlockTime s\<rparr>
      else Inl INVALID_TIMEOUT_BLOCK_DELTA)"
  by (simp add: convertToBlocks_def calculateBlocks_eq)

lemma minutesToBlocks_eq:
  assumes "splitPairId U pairId = (b, q)"
  shows "minutesToBlocks U pairId d =
     (if \<forall>s \<in> {b, q}. \<forall>m \<in> {reverse d, swapMinimal d, swapMaximal d}.
           m / getBlockTime s \<in> \<int> \<and> 1 \<le> m / getBlockTime s
      then Inr \<lparr>base = \<lparr>reverse = reverse d / getBlockTime b,
                swapMinimal = swapMinimal d / getBlockTime b,
                swapMaximal = swapMaximal d / getBlockTime b\<rparr>,
               quote = \<lparr>reverse = reverse d / getBlockTime q,
                swapMinimal = swapMinimal d / getBlockTime q,
                swapMaximal = swapMaximal d / getBlockTime q\<rparr>\<rparr>
      else Inl INVALID_TIMEOUT_BLOCK_DELTA)"
  using assms by (simp add: minutesToBlocks_def convertToBlocks_eq)

section \<open>Conversion of block counts\<close>








lemma init_step:
  assumes "timeoutDelta p = Some td"
  shows "init U tds (p # rest) =
     (case minutesToBlocks U (getPairId U p) (expandLegacy td) of
        Inl e \<Rightarrow> (Inl e, tds, p\<lparr>timeoutDelta := Some (Table (expandLegacy td))\<rparr> # rest)
      | Inr blks \<Rightarrow>
         (case init U (tds(getPairId U p \<mapsto> blks)) rest of
            (r, tds', rest') \<Rightarrow>
              (r, tds', p\<lparr>timeoutDelta := Some (Table (expandLegacy td))\<rparr> # rest')))"
  using assms by (simp add: Let_def)

lemma minutesToBlocks_error:
  "minutesToBlocks U pairId d = Inl e \<Longrightarrow> e = INVALID_TIMEOUT_BLOCK_DELTA"
  by (cases "splitPairId U pairId")
     (auto simp: minutesToBlocks_eq split: if_splits)

lemma setTimeout_outcome:
  assumes "timeoutDeltas this pairId \<noteq> None"
  shows "fst (setTimeout U ser this pairId d) =
     (case minutesToBlocks U pairId d of
        Inl e \<Rightarrow> Inl INVALID_TIMEOUT_BLOCK_DELTA | Inr blks \<Rightarrow> Inr ())"
  using assms
  by (auto simp: setTimeout_def Let_def split: sum.splits dest: minutesToBlocks_error)

lemma exampleUtils_splitPairId:
  "splitPairId exampleUtils ''LTC/BTC'' = (''LTC'', ''BTC'')"
  "splitPairId exampleUtils ''BTC/BTC'' = (''BTC'', ''BTC'')"
  by (simp_all add: exampleUtils_def)

lemma exampleUtils_getPairId:
  "getPairId exampleUtils p = pc_base p @ ''/'' @ pc_quote p"
  by (simp add: exampleUtils_def)

lemma exampleUtils_currencies:
  "getChainCurrency exampleUtils b q side isReverse =
     (if isReverse then (if side = BUY then b else q) else (if side = BUY then q else b))"
  "getLightningCurrency exampleUtils b q side isReverse =
     (if isReverse then (if side = BUY then q else b) else (if side = BUY then b else q))"
  by (simp_all add: exampleUtils_def)

lemma Ints_iff_le_floor: "(x::real) \<in> \<int> \<longleftrightarrow> x \<le> of_int \<lfloor>x\<rfloor>"
proof
  assume "x \<in> \<int>" then show "x \<le> of_int \<lfloor>x\<rfloor>" by (auto elim: Ints_cases)
next
  assume "x \<le> of_int \<lfloor>x\<rfloor>"
  then have "x = of_int \<lfloor>x\<rfloor>" using of_int_floor_le [of x] by linarith
  then show "x \<in> \<int>" by (metis Ints_of_int)
qed

section \<open>Timeout deltas in whole blocks\<close>

text \<open>
  Claim C8. \<open>minutesToBlocks\<close> succeeds exactly when each of the three minute values,
  divided by the block time of the base symbol and by that of the quote symbol, is an
  integer that is at least 1, and then returns these quotients; otherwise it fails with
  \<open>INVALID_TIMEOUT_BLOCK_DELTA\<close>. \<open>setTimeout\<close> on a known pair fails with that error exactly
  when \<open>minutesToBlocks\<close> does. \<open>init\<close>, at a pair with a \<open>timeoutDelta\<close>, first expands a
  legacy number \<open>n\<close> to the table whose three entries are \<open>n\<close>, fails with that error when
  \<open>minutesToBlocks\<close> does on the table, and otherwise stores the blocks and goes on.
\<close>

theorem timeoutDelta_minutes_whole_blocks:
  assumes "splitPairId U pairId = (b, q)"
  shows
    "minutesToBlocks U pairId d =
       (if \<forall>s \<in> {b, q}. \<forall>m \<in> {reverse d, swapMinimal d, swapMaximal d}.
             m / getBlockTime s \<in> \<int> \<and> 1 \<le> m / getBlockTime s
        then Inr \<lparr>base = \<lparr>reverse = reverse d / getBlockTime b,
                          swapMinimal = swapMinimal d / getBlockTime b,
                          swapMaximal = swapMaximal d / getBlockTime b\<rparr>,
                  quote = \<lparr>reverse = reverse d / getBlockTime q,
                           swapMinimal = swapMinimal d / getBlockTime q,
                           swapMaximal = swapMaximal d / getBlockTime q\<rparr>\<rparr>
        else Inl INVALID_TIMEOUT_BLOCK_DELTA) \<and>
     (timeoutDeltas this pairId \<noteq> None \<longrightarrow>
        fst (setTimeout U ser this pairId d) =
          (case minutesToBlocks U pairId d of
             Inl e \<Rightarrow> Inl INVALID_TIMEOUT_BLOCK_DELTA
           | Inr blks \<Rightarrow> Inr ())) \<and>
     (getPairId U p = pairId \<and> timeoutDelta p = Some td \<and> expandLegacy td = d \<longrightarrow>
        init U tds (p # rest) =
          (case minutesToBlocks U pairId d of
             Inl e \<Rightarrow>
               (Inl INVALID_TIMEOUT_BLOCK_DELTA, tds, p\<lparr>timeoutDelta := Some (Table d)\<rparr> # rest)
           | Inr blks \<Rightarrow>
               (case init U (tds(pairId \<mapsto> blks)) rest of
                  (r, tds', rest') \<Rightarrow> (r, tds', p\<lparr>timeoutDelta := Some (Table d)\<rparr> # rest')))) \<and>
     expandLegacy (Minutes n) = \<lparr>reverse = n, swapMinimal = n, swapMaximal = n\<rparr>"
proof -
  have blocks: "minutesToBlocks U pairId d =
       (if \<forall>s \<in> {b, q}. \<forall>m \<in> {reverse d, swapMinimal d, swapMaximal d}.
             m / getBlockTime s \<in> \<int> \<and> 1 \<le> m / getBlockTime s
        then Inr \<lparr>base = \<lparr>reverse = reverse d / getBlockTime b,
                          swapMinimal = swapMinimal d / getBlockTime b,
                          swapMaximal = swapMaximal d / getBlockTime b\<rparr>,
                  quote = \<lparr>reverse = reverse d / getBlockTime q,
                           swapMinimal = swapMinimal d / getBlockTime q,
                           swapMaximal = swapMaximal d / getBlockTime q\<rparr>\<rparr>
        else Inl INVALID_TIMEOUT_BLOCK_DELTA)"
    by (rule minutesToBlocks_eq [OF assms])
  have set: "fst (setTimeout U ser this pairId d) =
          (case minutesToBlocks U pairId d of
             Inl e \<Rightarrow> Inl INVALID_TIMEOUT_BLOCK_DELTA
           | Inr blks \<Rightarrow> Inr ())"
    if "timeoutDeltas this pairId \<noteq> None"
    using that by (rule setTimeout_outcome)
  have ini: "init U tds (p # rest) =
          (case minutesToBlocks U pairId d of
             Inl e \<Rightarrow>
               (Inl INVALID_TIMEOUT_BLOCK_DELTA, tds, p\<lparr>timeoutDelta := Some (Table d)\<rparr> # rest)
           | Inr blks \<Rightarrow>
               (case init U (tds(pairId \<mapsto> blks)) rest of
                  (r, tds', rest') \<Rightarrow> (r, tds', p\<lparr>timeoutDelta := Some (Table d)\<rparr> # rest')))"
    if "getPairId U p = pairId" "timeoutDelta p = Some td" "expandLegacy td = d"
    using that init_step [of p td U tds rest]
    by (auto split: sum.splits dest: minutesToBlocks_error)
  have leg: "expandLegacy (Minutes n) = \<lparr>reverse = n, swapMinimal = n, swapMaximal = n\<rparr>"
    by (simp add: expandLegacy_def)
  show ?thesis
    using blocks set ini leg by blast
qed

theorem timeoutDelta_minutes_whole_blocks_witness:
  "splitPairId exampleUtils ''LTC/BTC'' = (''LTC'', ''BTC'') \<and>
   minutesToBlocks exampleUtils ''LTC/BTC''
       \<lparr>reverse = 1440, swapMinimal = 1440, swapMaximal = 1440\<rparr> =
     Inr \<lparr>base = \<lparr>reverse = 576, swapMinimal = 576, swapMaximal = 576\<rparr>,
          quote = \<lparr>reverse = 144, swapMinimal = 144, swapMaximal = 144\<rparr>\<rparr> \<and>
   fst (setTimeout exampleUtils exampleStringify exampleProvider ''LTC/BTC''
          \<lparr>reverse = 1440, swapMinimal = 1440, swapMaximal = 1440\<rparr>) = Inr () \<and>
   fst (init exampleUtils Map.empty [hd examplePairs]) = Inr ()"
  using timeoutDelta_minutes_whole_blocks [OF exampleUtils_splitPairId(1),
      of "\<lparr>reverse = 1440, swapMinimal = 1440, swapMaximal = 1440\<rparr>" exampleProvider
         exampleStringify "hd examplePairs" "Minutes 1440" Map.empty "[]" 1440]
  by (simp add: exampleUtils_splitPairId exampleUtils_getPairId getBlockTime_table
      exampleProvider_def examplePairs_def expandLegacy_def)

lemma minutesToBlocks_invalid_example:
  "minutesToBlocks exampleUtils ''LTC/BTC''
       \<lparr>reverse = 15, swapMinimal = 1440, swapMaximal = 2880\<rparr> =
     Inl INVALID_TIMEOUT_BLOCK_DELTA"
  by (simp add: minutesToBlocks_eq [OF exampleUtils_splitPairId(1)] getBlockTime_table
      Ints_iff_le_floor)

lemma setPairTimeoutDelta_length [simp]:
  "length (setPairTimeoutDelta U pid d ps) = length ps"
  by (induction ps) simp_all

lemma setPairTimeoutDelta_nth:
  "i < length ps \<Longrightarrow>
     setPairTimeoutDelta U pid d ps ! i =
       (if getPairId U (ps ! i) = pid \<and> (\<forall>j<i. getPairId U (ps ! j) \<noteq> pid)
        then (ps ! i)\<lparr>timeoutDelta := Some (Table d)\<rparr> else ps ! i)"
proof (induction ps arbitrary: i)
  case Nil
  then show ?case by simp
next
  case (Cons p ps)
  show ?case
  proof (cases i)
    case 0
    then show ?thesis by simp
  next
    case (Suc k)
    with Cons.prems have k: "k < length ps" by simp
    have split: "(\<forall>j<Suc k. getPairId U ((p # ps) ! j) \<noteq> pid) \<longleftrightarrow>
        getPairId U p \<noteq> pid \<and> (\<forall>j<k. getPairId U (ps ! j) \<noteq> pid)"
      by (auto simp: less_Suc_eq_0_disj)
    show ?thesis
      using Cons.IH [OF k] split Suc by auto
  qed
qed

text \<open>
  Claim C9, as amended. A \<open>setTimeout\<close> call with a known pair and valid deltas sets that
  pair's entry of the in-memory map and nothing else in it; in the configuration, the
  path, the other fields and every pair but the first one with the identifier are kept,
  and that pair only gets a new \<open>timeoutDelta\<close>; the serialized new configuration is
  written to the configuration path by one direct write (no temporary file, no rename).
  For an unknown pair the call fails with \<open>PAIR_NOT_FOUND\<close> and changes nothing.
\<close>

theorem setTimeout_frame:
  "(timeoutDeltas this pairId \<noteq> None \<and> minutesToBlocks U pairId d = Inr blks \<longrightarrow>
      fst (setTimeout U ser this pairId d) = Inr () \<and>
      timeoutDeltas (snd (setTimeout U ser this pairId d)) = (timeoutDeltas this)(pairId \<mapsto> blks) \<and>
      configpath (config (snd (setTimeout U ser this pairId d))) = configpath (config this) \<and>
      others (config (snd (setTimeout U ser this pairId d))) = others (config this) \<and>
      length (pairs (config (snd (setTimeout U ser this pairId d)))) =
        length (pairs (config this)) \<and>
      (\<forall>i<length (pairs (config this)).
          pairs (config (snd (setTimeout U ser this pairId d))) ! i =
            (if getPairId U (pairs (config this) ! i) = pairId \<and>
                (\<forall>j<i. getPairId U (pairs (config this) ! j) \<noteq> pairId)
             then (pairs (config this) ! i)\<lparr>timeoutDelta := Some (Table d)\<rparr>
             else pairs (config this) ! i)) \<and>
      files (disk (snd (setTimeout U ser this pairId d))) =
        (files (disk this))(configpath (config this) \<mapsto>
           ser (config (snd (setTimeout U ser this pairId d)))) \<and>
      fsOps (disk (snd (setTimeout U ser this pairId d))) =
        fsOps (disk this) @
          [WriteFileSync (configpath (config this))
             (ser (config (snd (setTimeout U ser this pairId d))))]) \<and>
   (timeoutDeltas this pairId = None \<longrightarrow>
      setTimeout U ser this pairId d = (Inl (PAIR_NOT_FOUND pairId), this))"
  by (auto simp: setTimeout_def Let_def writeFileSync_def setPairTimeoutDelta_nth)

theorem setTimeout_frame_witness:
  "timeoutDeltas exampleProvider ''BTC/BTC'' \<noteq> None \<and>
   fst (setTimeout exampleUtils exampleStringify exampleProvider ''BTC/BTC''
          \<lparr>reverse = 1440, swapMinimal = 1440, swapMaximal = 4320\<rparr>) = Inr () \<and>
   pairs (config (snd (setTimeout exampleUtils exampleStringify exampleProvider ''BTC/BTC''
          \<lparr>reverse = 1440, swapMinimal = 1440, swapMaximal = 4320\<rparr>))) ! 0 = examplePairs ! 0 \<and>
   pairs (config (snd (setTimeout exampleUtils exampleStringify exampleProvider ''BTC/BTC''
          \<lparr>reverse = 1440, swapMinimal = 1440, swapMaximal = 4320\<rparr>))) ! 1 =
     (examplePairs ! 1)\<lparr>timeoutDelta :=
        Some (Table \<lparr>reverse = 1440, swapMinimal = 1440, swapMaximal = 4320\<rparr>)\<rparr> \<and>
   timeoutDeltas exampleProvider ''ETH/BTC'' = None \<and>
   setTimeout exampleUtils exampleStringify exampleProvider ''ETH/BTC''
          \<lparr>reverse = 1440, swapMinimal = 1440, swapMaximal = 4320\<rparr> =
     (Inl (PAIR_NOT_FOUND ''ETH/BTC''), exampleProvider)"
  using setTimeout_frame [of exampleProvider "''BTC/BTC''" exampleUtils
      "\<lparr>reverse = 1440, swapMinimal = 1440, swapMaximal = 4320\<rparr>"
      "\<lparr>base = \<lparr>reverse = 144, swapMinimal = 144, swapMaximal = 432\<rparr>,
        quote = \<lparr>reverse = 144, swapMinimal = 144, swapMaximal = 432\<rparr>\<rparr>" exampleStringify]
    setTimeout_frame [of exampleProvider "''ETH/BTC''" exampleUtils
      "\<lparr>reverse = 1440, swapMinimal = 1440, swapMaximal = 4320\<rparr>" undefined exampleStringify]
  by (simp add: minutesToBlocks_eq [OF exampleUtils_splitPairId(2)] getBlockTime_table
      exampleProvider_def examplePairs_def exampleUtils_getPairId)

text \<open>The claim as stated fails: the only file operation of a \<open>setTimeout\<close> call is a
  write to the configuration path itself.\<close>

theorem setTimeout_rename_counterexample:
  "fsOps (disk (snd (setTimeout exampleUtils exampleStringify exampleProvider ''BTC/BTC''
      \<lparr>reverse = 1440, swapMinimal = 1440, swapMaximal = 4320\<rparr>))) =
     [WriteFileSync ''/boltz.conf'' ''LTC/BTC;BTC/BTC;loglevel''] \<and>
   \<not> spec_writeTempThenRename
       (fsOps (disk (snd (setTimeout exampleUtils exampleStringify exampleProvider ''BTC/BTC''
          \<lparr>reverse = 1440, swapMinimal = 1440, swapMaximal = 4320\<rparr>))))
       ''/boltz.conf'' ''LTC/BTC;BTC/BTC;loglevel''"
  by (simp add: setTimeout_def Let_def writeFileSync_def spec_writeTempThenRename_def
      minutesToBlocks_eq [OF exampleUtils_splitPairId(2)] getBlockTime_table
      exampleProvider_def examplePairs_def exampleUtils_getPairId exampleStringify_def)

section \<open>Timeout of a submarine swap with an invoice\<close>

text \<open>A submarine-swap query with a non-empty invoice is answered by \<open>getTimeoutInvoice\<close>,
  with the deltas of the chain side and of the Lightning side of the pair.\<close>

lemma getTimeout_with_invoice:
  assumes "tds pairId = Some timeouts"
    and "splitPairId U pairId = (b, q)"
    and "payreq \<noteq> []"
  shows "getTimeout U tds cs pairId side False (Some payreq) =
     getTimeoutInvoice cs (getChainCurrency U b q side False)
       (getLightningCurrency U b q side False)
       (if side = BUY then quote timeouts else base timeouts)
       (if side = BUY then base timeouts else quote timeouts) payreq"
  using assms by (simp add: getTimeout_def Let_def)

lemma checkRoutability_rejected:
  "queryRoutes lnd (destination req)
     (Math_max (if supportsMpp req then Math_ceil (numSatoshis req / paymentMaxParts lnd)
                else numSatoshis req) 1)
     limit (cltvExpiry req) (routeHintsList req) = Inl e \<Longrightarrow>
   checkRoutability lnd req limit = noRoutes"
  by (simp add: checkRoutability_def Let_def)

lemma checkRoutability_no_route:
  "queryRoutes lnd (destination req)
     (Math_max (if supportsMpp req then Math_ceil (numSatoshis req / paymentMaxParts lnd)
                else numSatoshis req) 1)
     limit (cltvExpiry req) (routeHintsList req) = Inr [] \<Longrightarrow>
   checkRoutability lnd req limit = noRoutes"
  by (simp add: checkRoutability_def Let_def)

text \<open>
  Claim C5. When the Lightning currency has an LND client and a chain client, the invoice
  decodes and the chain height is read: if the routability check gives \<open>noRoutes\<close> the
  result is \<open>(swapMaximal chainDeltas, False)\<close>; otherwise, with the route's time lock less
  the height as \<open>routeDeltaBlocks\<close>, \<open>finalExpiryMinutes\<close> its minutes rounded up plus 60,
  and \<open>minTimeout\<close> these minutes in chain blocks rounded up, the query fails with
  \<open>MIN_EXPIRY_TOO_BIG\<close> exactly when \<open>minTimeout > swapMaximal chainDeltas\<close> and otherwise
  returns \<open>(max (swapMinimal chainDeltas) minTimeout, True)\<close>.
\<close>

theorem getTimeoutInvoice_result:
  assumes "cs lightning = Some currency"
    and "lndClient currency = Some lnd"
    and "decodePayReqRawResponse lnd req = Inr decoded"
    and "chainClient currency = Some client"
    and "getBlockchainInfo client = Inr info"
  shows "getTimeoutInvoice cs chain lightning chainDeltas lightningDeltas req =
     (let routeTimeLock = checkRoutability lnd decoded (swapMaximal lightningDeltas);
          routeDeltaBlocks = routeTimeLock - blocks info;
          finalExpiryMinutes =
            of_int \<lceil>routeDeltaBlocks * getBlockTime lightning\<rceil> + 60;
          minTimeout = of_int \<lceil>finalExpiryMinutes / getBlockTime chain\<rceil>
      in if routeTimeLock = noRoutes then Inr (swapMaximal chainDeltas, False)
         else if minTimeout > swapMaximal chainDeltas
         then Inl (MIN_EXPIRY_TOO_BIG
                (of_int \<lceil>swapMaximal chainDeltas * getBlockTime chain\<rceil>)
                (of_int \<lceil>routeDeltaBlocks * getBlockTime lightning\<rceil>))
         else Inr (max (swapMinimal chainDeltas) minTimeout, True))"
  using assms
  by (simp add: getTimeoutInvoice_def Let_def Math_ceil_def Math_max_def routingOffset_def
      max_def)

lemma exampleCurrencies_BTC:
  "exampleCurrencies ''BTC'' = Some exampleCurrency"
  by (simp add: exampleCurrencies_def)

lemma exampleCurrency_fields:
  "symbol exampleCurrency = ''BTC''"
  "chainClient exampleCurrency = Some \<lparr>getBlockchainInfo = Inr \<lparr>blocks = 800000\<rparr>\<rparr>"
  "lndClient exampleCurrency = Some exampleLnd"
  "clnClient exampleCurrency = None"
  by (simp_all add: exampleCurrency_def)

lemma exampleLnd_decode:
  "decodePayReqRawResponse exampleLnd ''lnbc1m'' =
     Inr \<lparr>numSatoshis = 100000, destination = ''02abc'', cltvExpiry = 40,
          routeHintsList = [],
          featuresMap = [(17, \<lparr>feature_name = ''multi-path-payments'',
                               isKnown = True, isRequired = False\<rparr>)]\<rparr>"
  by (simp add: exampleLnd_def)

lemma exampleLnd_routes:
  "checkRoutability exampleLnd
     \<lparr>numSatoshis = 100000, destination = ''02abc'', cltvExpiry = 40,
      routeHintsList = [],
      featuresMap = [(17, \<lparr>feature_name = ''multi-path-payments'',
                           isKnown = True, isRequired = False\<rparr>)]\<rparr> limit = 800400"
  by (simp add: checkRoutability_def exampleLnd_def Let_def noRoutes_def)

theorem getTimeoutInvoice_result_witness:
  "getTimeoutInvoice exampleCurrencies ''BTC'' ''BTC''
     \<lparr>reverse = 144, swapMinimal = 144, swapMaximal = 144\<rparr>
     \<lparr>reverse = 144, swapMinimal = 144, swapMaximal = 144\<rparr> ''lnbc1m'' =
   Inl (MIN_EXPIRY_TOO_BIG 1440 4000) \<and>
   getTimeoutInvoice exampleCurrencies ''BTC'' ''BTC''
     \<lparr>reverse = 144, swapMinimal = 144, swapMaximal = 1008\<rparr>
     \<lparr>reverse = 144, swapMinimal = 144, swapMaximal = 144\<rparr> ''lnbc1m'' =
   Inr (406, True)"
  using getTimeoutInvoice_result [where cs = exampleCurrencies and lightning = "''BTC''"
      and chain = "''BTC''" and req = "''lnbc1m''" and lnd = exampleLnd
      and client = "\<lparr>getBlockchainInfo = Inr \<lparr>blocks = 800000\<rparr>\<rparr>"
      and info = "\<lparr>blocks = 800000\<rparr>"
      and chainDeltas = "\<lparr>reverse = 144, swapMinimal = 144, swapMaximal = 144\<rparr>"
      and lightningDeltas = "\<lparr>reverse = 144, swapMinimal = 144, swapMaximal = 144\<rparr>",
      OF exampleCurrencies_BTC _ exampleLnd_decode]
    getTimeoutInvoice_result [where cs = exampleCurrencies and lightning = "''BTC''"
      and chain = "''BTC''" and req = "''lnbc1m''" and lnd = exampleLnd
      and client = "\<lparr>getBlockchainInfo = Inr \<lparr>blocks = 800000\<rparr>\<rparr>"
      and info = "\<lparr>blocks = 800000\<rparr>"
      and chainDeltas = "\<lparr>reverse = 144, swapMinimal = 144, swapMaximal = 1008\<rparr>"
      and lightningDeltas = "\<lparr>reverse = 144, swapMinimal = 144, swapMaximal = 144\<rparr>",
      OF exampleCurrencies_BTC _ exampleLnd_decode]
  by (simp add: exampleLnd_routes getBlockTime_table noRoutes_def exampleCurrency_fields)

section \<open>Amount limits\<close>

lemma verifyAmount_eq:
  assumes "rateProviderPairs this pairId = Some pr" and "limits pr = Some lims"
  shows "verifyAmount U this pairId r amount side type =
     (let a = (if (type \<noteq> ReverseSubmarine \<and> side = BUY) \<or>
                  (type = ReverseSubmarine \<and> side = SELL)
               then of_int \<lfloor>toDouble (amount * r)\<rfloor> else amount)
      in if of_int \<lfloor>a\<rfloor> > maximal lims then Inl (EXCEED_MAXIMAL_AMOUNT a (maximal lims))
         else if of_int \<lceil>a\<rceil> < minimal lims then Inl (BENEATH_MINIMAL_AMOUNT a (minimal lims))
         else Inr ())"
  using assms
  by (cases "splitPairId U pairId")
     (simp add: verifyAmount_def getPair_def Let_def Math_floor_def Math_ceil_def)

text \<open>
  Claim C3, as amended. For a pair with limits, let \<open>a\<close> be the amount after the first step:
  the floor of the double product \<open>amount * rate\<close> exactly when the kind is not
  \<open>ReverseSubmarine\<close> and the side is \<open>BUY\<close>, or the kind is \<open>ReverseSubmarine\<close> and the side is
  \<open>SELL\<close>; the amount itself otherwise. \<open>verifyAmount\<close> fails with \<open>EXCEED_MAXIMAL_AMOUNT\<close>
  iff \<open>floor a > maximal\<close>; failing that, it fails with \<open>BENEATH_MINIMAL_AMOUNT\<close> iff
  \<open>ceil a < minimal\<close>; it accepts iff \<open>floor a \<le> maximal\<close> and \<open>ceil a \<ge> minimal\<close>, which for a
  whole \<open>a\<close> is \<open>minimal \<le> a \<le> maximal\<close>.
\<close>

theorem verifyAmount_limits:
  assumes "rateProviderPairs this pairId = Some pr" and "limits pr = Some lims"
    and "a = (if (type \<noteq> ReverseSubmarine \<and> side = BUY) \<or>
                 (type = ReverseSubmarine \<and> side = SELL)
              then of_int \<lfloor>toDouble (amount * r)\<rfloor> else amount)"
  shows "(verifyAmount U this pairId r amount side type =
            Inl (EXCEED_MAXIMAL_AMOUNT a (maximal lims)) \<longleftrightarrow>
          of_int \<lfloor>a\<rfloor> > maximal lims) \<and>
         (verifyAmount U this pairId r amount side type =
            Inl (BENEATH_MINIMAL_AMOUNT a (minimal lims)) \<longleftrightarrow>
          of_int \<lfloor>a\<rfloor> \<le> maximal lims \<and> of_int \<lceil>a\<rceil> < minimal lims) \<and>
         (verifyAmount U this pairId r amount side type = Inr () \<longleftrightarrow>
          of_int \<lfloor>a\<rfloor> \<le> maximal lims \<and> minimal lims \<le> of_int \<lceil>a\<rceil>) \<and>
         (a \<in> \<int> \<longrightarrow>
            (verifyAmount U this pairId r amount side type = Inr () \<longleftrightarrow>
             minimal lims \<le> a \<and> a \<le> maximal lims))"
proof -
  have whole: "of_int \<lfloor>a\<rfloor> = a \<and> of_int \<lceil>a\<rceil> = a" if "a \<in> \<int>"
    using that by (auto elim: Ints_cases)
  show ?thesis
    unfolding verifyAmount_eq [OF assms(1,2), of U r amount side type] assms(3) [symmetric] Let_def
    using whole by auto
qed

lemma exampleService_pair:
  "rateProviderPairs exampleService ''BTC/BTC'' =
     Some \<lparr>rate = 1, limits = Some \<lparr>maximal = 4294967, minimal = 1000\<rparr>\<rparr>"
  "rateProviderPairs exampleService ''LTC/BTC'' =
     Some \<lparr>rate = exampleRateThird, limits = Some \<lparr>maximal = 4294967, minimal = 1000\<rparr>\<rparr>"
  "rateProviderPairs exampleService ''L-BTC/BTC'' =
     Some \<lparr>rate = exampleRateTenth, limits = Some \<lparr>maximal = 4294967, minimal = 1000\<rparr>\<rparr>"
  by (simp_all add: exampleService_def)

lemma exampleRateThird_products:
  "toDouble (3000 * exampleRateThird) = 1000"
  "toDouble (4503 * exampleRateThird) = 1501"
  "toDouble (300000 * exampleRateThird) = 100000"
proof -
  show "toDouble (3000 * exampleRateThird) = 1000"
    by (simp add: exampleRateThird_def toDouble_eval [where e = 9] roundTiesToEven_def Let_def)
  show "toDouble (4503 * exampleRateThird) = 1501"
    by (simp add: exampleRateThird_def toDouble_eval [where e = 10] roundTiesToEven_def Let_def)
  show "toDouble (300000 * exampleRateThird) = 100000"
    by (simp add: exampleRateThird_def toDouble_eval [where e = 16] roundTiesToEven_def Let_def)
qed

lemma exampleRateTenth_product:
  "toDouble (100000 * exampleRateTenth) = 10000"
  by (simp add: exampleRateTenth_def toDouble_eval [where e = 13] roundTiesToEven_def Let_def)

theorem verifyAmount_limits_witness:
  "verifyAmount exampleUtils exampleService ''BTC/BTC'' 1 100000 BUY Submarine = Inr () \<and>
   verifyAmount exampleUtils exampleService ''LTC/BTC'' exampleRateThird 3000 BUY Submarine =
     Inr () \<and>
   verifyAmount exampleUtils exampleService ''BTC/BTC'' (1 / 2) 1000 SELL ReverseSubmarine =
     Inl (BENEATH_MINIMAL_AMOUNT 500 1000)"
proof -
  have whole: "(100000 :: real) =
      (if (Submarine \<noteq> ReverseSubmarine \<and> BUY = BUY) \<or>
          (Submarine = ReverseSubmarine \<and> BUY = SELL)
       then of_int \<lfloor>toDouble (100000 * 1)\<rfloor> else 100000)"
    by (simp add: toDouble_numeral)
  note inst1 = verifyAmount_limits [where this = exampleService and pairId = "''BTC/BTC''"
      and lims = "\<lparr>maximal = 4294967, minimal = 1000\<rparr>" and U = exampleUtils
      and r = 1 and amount = 100000 and side = BUY and type = Submarine and a = 100000,
      OF exampleService_pair(1) _ whole]
  have 1: "verifyAmount exampleUtils exampleService ''BTC/BTC'' 1 100000 BUY Submarine = Inr ()"
    using inst1 by simp
  have third: "(1000 :: real) =
      (if (Submarine \<noteq> ReverseSubmarine \<and> BUY = BUY) \<or>
          (Submarine = ReverseSubmarine \<and> BUY = SELL)
       then of_int \<lfloor>toDouble (3000 * exampleRateThird)\<rfloor> else 3000)"
    by (simp add: exampleRateThird_products)
  note inst2 = verifyAmount_limits [where this = exampleService and pairId = "''LTC/BTC''"
      and lims = "\<lparr>maximal = 4294967, minimal = 1000\<rparr>" and U = exampleUtils
      and r = exampleRateThird and amount = 3000 and side = BUY and type = Submarine
      and a = 1000, OF exampleService_pair(2) _ third]
  have 2: "verifyAmount exampleUtils exampleService ''LTC/BTC'' exampleRateThird 3000 BUY
      Submarine = Inr ()"
    using inst2 by simp
  have half: "(500 :: real) =
      (if (ReverseSubmarine \<noteq> ReverseSubmarine \<and> SELL = BUY) \<or>
          (ReverseSubmarine = ReverseSubmarine \<and> SELL = SELL)
       then of_int \<lfloor>toDouble (1000 * (1 / 2))\<rfloor> else 1000)"
    by (simp add: toDouble_numeral)
  note inst3 = verifyAmount_limits [where this = exampleService and pairId = "''BTC/BTC''"
      and lims = "\<lparr>maximal = 4294967, minimal = 1000\<rparr>" and U = exampleUtils
      and r = "1 / 2" and amount = 1000 and side = SELL and type = ReverseSubmarine
      and a = 500, OF exampleService_pair(1) _ half]
  have 3: "verifyAmount exampleUtils exampleService ''BTC/BTC'' (1 / 2) 1000 SELL
      ReverseSubmarine = Inl (BENEATH_MINIMAL_AMOUNT 500 1000)"
    using inst3 by simp
  show ?thesis
    using 1 2 3 by blast
qed

text \<open>The claim as stated fails on an amount that is not whole: no conversion takes
  place for a submarine swap on the \<open>SELL\<close> side, and 4294967.5 is accepted under a
  maximum of 4294967.\<close>

theorem verifyAmount_fraction_counterexample:
  "rateProviderPairs exampleService ''BTC/BTC'' =
     Some \<lparr>rate = 1, limits = Some \<lparr>maximal = 4294967, minimal = 1000\<rparr>\<rparr> \<and>
   verifyAmount exampleUtils exampleService ''BTC/BTC'' 1 (8589935 / 2) SELL Submarine = Inr () \<and>
   \<not> (verifyAmount exampleUtils exampleService ''BTC/BTC'' 1 (8589935 / 2) SELL Submarine =
          Inr () \<longleftrightarrow>
        1000 \<le> (8589935 / 2 :: real) \<and> (8589935 / 2 :: real) \<le> 4294967)"
  by (simp add: verifyAmount_eq [OF exampleService_pair(1)] exampleService_pair)

section \<open>Creation of swaps\<close>

lemma getPair_Inr:
  "getPair U this pairId = Inr (b, q, pr) \<Longrightarrow>
     rateProviderPairs this pairId = Some pr \<and> splitPairId U pairId = (b, q)"
  by (cases "splitPairId U pairId") (auto simp: getPair_def split: option.splits)

lemma createReverseSwap_eq:
  assumes "allowReverseSwaps this"
    and "getPair U this pairId = Inr (b, q, pr)"
    and "getOrderSide sideStr = Inr side"
    and "providerGetTimeout this pairId side ReverseSubmarine = Inr delta"
    and "verifyAmount U this pairId (getRate U (rate pr) side ReverseSubmarine) amount side
           ReverseSubmarine = Inr ()"
    and "getFees this pairId (getRate U (rate pr) side ReverseSubmarine) side amount
           ReverseSubmarine = Inr (baseFee, percentageFee)"
    and "onchain =
           toDouble (of_int \<lfloor>toDouble (amount * getRate U (rate pr) side ReverseSubmarine)\<rfloor> -
             toDouble (baseFee + percentageFee))"
  shows "createReverseSwap U this st pairId sideStr amount key =
     (if onchain < 1 then (Inl ONCHAIN_AMOUNT_TOO_LOW, st)
      else
        (case getSwapOutputType this (getChainCurrency U b q side True) True of
           Inl e \<Rightarrow> (Inl e, st)
         | Inr outputType \<Rightarrow>
            (case swapManagerCreateReverseSwap this
                    (CreateReverseSwapCall b q side amount onchain key outputType delta) of
               Inl f \<Rightarrow>
                 (Inl (Rejected f),
                  st\<lparr>swapManagerCalls := swapManagerCalls st @
                       [CreateReverseSwapCall b q side amount onchain key outputType delta]\<rparr>)
             | Inr res \<Rightarrow>
                 (Inr [(''id'', JStr (generateId this)),
                       (''invoice'', getProp res ''invoice''),
                       (''redeemScript'', getProp res ''redeemScript''),
                       (''onchainAmount'', JNum onchain),
                       (''lockupTransaction'', getProp res ''lockupTransaction''),
                       (''timeoutBlockHeight'', getProp res ''timeoutBlockHeight''),
                       (''lockupTransactionId'', getProp res ''lockupTransactionId'')],
                  st\<lparr>swapManagerCalls := swapManagerCalls st @
                       [CreateReverseSwapCall b q side amount onchain key outputType delta],
                     reverseSwaps := reverseSwaps st @
                       [[(''id'', JStr (generateId this)),
                         (''invoice'', getProp res ''invoice''),
                         (''minerFee'', getProp res ''minerFee''),
                         (''keyIndex'', getProp res ''keyIndex''),
                         (''redeemScript'', getProp res ''redeemScript''),
                         (''onchainAmount'', JNum onchain),
                         (''timeoutBlockHeight'', getProp res ''timeoutBlockHeight''),
                         (''pair'', JStr pairId),
                         (''orderSide'', JSide side),
                         (''fee'', JNum percentageFee),
                         (''transactionId'', getProp res ''lockupTransactionId''),
                         (''status'', JStatus TransactionMempool)]]\<rparr>))))"
  using assms(1-6) unfolding assms(7)
  by (simp add: createReverseSwap_def Let_def Math_floor_def split: sum.splits)

lemma getSwapOutputType_error:
  "getSwapOutputType this c isReverse = Inl e \<Longrightarrow> e = CURRENCY_NOT_FOUND c"
  by (auto simp: getSwapOutputType_def split: option.splits if_splits)

lemma onchainAmount_whole:
  assumes "baseFee \<in> \<int>" and "percentageFee \<in> \<int>"
    and "0 \<le> baseFee + percentageFee" and "baseFee + percentageFee < 2 ^ 53"
    and "0 \<le> x" and "x < 2 ^ 51"
  shows "toDouble (of_int \<lfloor>toDouble x\<rfloor> - toDouble (baseFee + percentageFee)) =
     of_int \<lfloor>toDouble x\<rfloor> - (baseFee + percentageFee)"
proof -
  from assms(1,2) have "baseFee + percentageFee \<in> \<int>" by simp
  then obtain s :: int where s: "baseFee + percentageFee = of_int s"
    by (auto elim: Ints_cases)
  have s0: "0 \<le> s" and s1: "s < 2 ^ 53"
    using assms(3,4) unfolding s by simp_all
  have fees: "toDouble (of_int s) = of_int s"
    using s0 s1 by (intro toDouble_of_int) simp
  define f where "f = \<lfloor>toDouble x\<rfloor>"
  have f: "0 \<le> f" "f \<le> 2 ^ 51"
    unfolding f_def by (rule toDouble_whole_product(1,2) [OF assms(5,6)])+
  have "\<bar>f - s\<bar> < 2 ^ 53"
    using f s0 s1 by simp
  then have "toDouble (of_int (f - s)) = of_int (f - s)"
    by (rule toDouble_of_int)
  then show ?thesis
    unfolding s fees f_def [symmetric] by simp
qed

text \<open>
  Claim C4, as amended. For a reverse-swap creation that passes the verification of the
  amount and gets its fees, let \<open>onchain\<close> be the double difference of the floor of the
  double product \<open>invoiceAmount * rate\<close> and the double sum \<open>baseFee + percentageFee\<close>. The
  creation fails with \<open>ONCHAIN_AMOUNT_TOO_LOW\<close> iff \<open>onchain < 1\<close>, and then changes
  nothing. A created reverse swap, in the response and in the row persisted, has this
  \<open>onchainAmount\<close>, which is at least 1. For whole fees with a sum from 0 to below \<open>2^53\<close>
  and an exact product from 0 to below \<open>2^51\<close>, no rounding takes place after the product:
  \<open>onchain\<close> is the floor of the double product minus the two fees, so that \<open>onchain\<close> with
  the two fees added is at most the double product, which exceeds the exact product by
  at most its \<open>2^53\<close>th part.
\<close>

theorem createReverseSwap_onchainAmount:
  assumes "allowReverseSwaps this"
    and "getPair U this pairId = Inr (b, q, pr)"
    and "getOrderSide sideStr = Inr side"
    and "providerGetTimeout this pairId side ReverseSubmarine = Inr delta"
    and "verifyAmount U this pairId (getRate U (rate pr) side ReverseSubmarine) amount side
           ReverseSubmarine = Inr ()"
    and "getFees this pairId (getRate U (rate pr) side ReverseSubmarine) side amount
           ReverseSubmarine = Inr (baseFee, percentageFee)"
    and "onchain =
           toDouble (of_int \<lfloor>toDouble (amount * getRate U (rate pr) side ReverseSubmarine)\<rfloor> -
             toDouble (baseFee + percentageFee))"
  shows "(fst (createReverseSwap U this st pairId sideStr amount key) =
            Inl ONCHAIN_AMOUNT_TOO_LOW \<longleftrightarrow> onchain < 1) \<and>
         (onchain < 1 \<longrightarrow> snd (createReverseSwap U this st pairId sideStr amount key) = st) \<and>
         (\<forall>res. fst (createReverseSwap U this st pairId sideStr amount key) = Inr res \<longrightarrow>
            getProp res ''onchainAmount'' = JNum onchain \<and>
            getProp (last (reverseSwaps
                (snd (createReverseSwap U this st pairId sideStr amount key))))
              ''onchainAmount'' = JNum onchain \<and>
            1 \<le> onchain) \<and>
         (baseFee \<in> \<int> \<and> percentageFee \<in> \<int> \<and>
          0 \<le> baseFee + percentageFee \<and> baseFee + percentageFee < 2 ^ 53 \<and>
          0 \<le> amount * getRate U (rate pr) side ReverseSubmarine \<and>
          amount * getRate U (rate pr) side ReverseSubmarine < 2 ^ 51 \<longrightarrow>
            onchain =
              of_int \<lfloor>toDouble (amount * getRate U (rate pr) side ReverseSubmarine)\<rfloor> -
                (baseFee + percentageFee) \<and>
            onchain + baseFee + percentageFee \<le>
              toDouble (amount * getRate U (rate pr) side ReverseSubmarine) \<and>
            onchain + baseFee + percentageFee \<le>
              amount * getRate U (rate pr) side ReverseSubmarine +
              amount * getRate U (rate pr) side ReverseSubmarine / 2 ^ 53)"
proof -
  let ?x = "amount * getRate U (rate pr) side ReverseSubmarine"
  have run: "(fst (createReverseSwap U this st pairId sideStr amount key) =
            Inl ONCHAIN_AMOUNT_TOO_LOW \<longleftrightarrow> onchain < 1) \<and>
         (onchain < 1 \<longrightarrow> snd (createReverseSwap U this st pairId sideStr amount key) = st) \<and>
         (\<forall>res. fst (createReverseSwap U this st pairId sideStr amount key) = Inr res \<longrightarrow>
            getProp res ''onchainAmount'' = JNum onchain \<and>
            getProp (last (reverseSwaps
                (snd (createReverseSwap U this st pairId sideStr amount key))))
              ''onchainAmount'' = JNum onchain \<and>
            1 \<le> onchain)"
    unfolding createReverseSwap_eq [OF assms, of st key]
    by (auto simp: getProp_def split: sum.splits dest: getSwapOutputType_error)
  have whole: "onchain = of_int \<lfloor>toDouble ?x\<rfloor> - (baseFee + percentageFee) \<and>
      onchain + baseFee + percentageFee \<le> toDouble ?x \<and>
      onchain + baseFee + percentageFee \<le> ?x + ?x / 2 ^ 53"
    if fees: "baseFee \<in> \<int>" "percentageFee \<in> \<int>"
      "0 \<le> baseFee + percentageFee" "baseFee + percentageFee < 2 ^ 53"
      and x: "0 \<le> ?x" "?x < 2 ^ 51"
  proof -
    have eq: "onchain = of_int \<lfloor>toDouble ?x\<rfloor> - (baseFee + percentageFee)"
      unfolding assms(7) by (rule onchainAmount_whole [OF fees x])
    have le: "of_int \<lfloor>toDouble ?x\<rfloor> \<le> toDouble ?x"
      by (rule of_int_floor_le)
    have up: "toDouble ?x \<le> ?x + ?x / 2 ^ 53"
      by (rule toDouble_whole_product(5) [OF x])
    show ?thesis
      using eq le up by linarith
  qed
  show ?thesis
    using run whole by blast
qed

lemma getOrderSide_examples:
  "getOrderSide ''buy'' = Inr BUY" "getOrderSide ''sell'' = Inr SELL"
  by (simp_all add: getOrderSide_def toLowerCase_def)

lemma exampleUtils_getRate:
  "getRate exampleUtils r side type =
     (if (type = ReverseSubmarine) = (side = BUY) then toDouble (1 / r) else r)"
  by (simp add: exampleUtils_def)

lemma exampleService_getPair:
  "getPair exampleUtils exampleService ''BTC/BTC'' =
     Inr (''BTC'', ''BTC'', \<lparr>rate = 1, limits = Some \<lparr>maximal = 4294967, minimal = 1000\<rparr>\<rparr>)"
  "getPair exampleUtils exampleService ''LTC/BTC'' =
     Inr (''LTC'', ''BTC'',
       \<lparr>rate = exampleRateThird, limits = Some \<lparr>maximal = 4294967, minimal = 1000\<rparr>\<rparr>)"
  "getPair exampleUtils exampleService ''L-BTC/BTC'' =
     Inr (''L-BTC'', ''BTC'',
       \<lparr>rate = exampleRateTenth, limits = Some \<lparr>maximal = 4294967, minimal = 1000\<rparr>\<rparr>)"
proof -
  have split: "splitPairId exampleUtils ''L-BTC/BTC'' = (''L-BTC'', ''BTC'')"
    by (simp add: exampleUtils_def)
  show "getPair exampleUtils exampleService ''BTC/BTC'' =
     Inr (''BTC'', ''BTC'', \<lparr>rate = 1, limits = Some \<lparr>maximal = 4294967, minimal = 1000\<rparr>\<rparr>)"
    by (simp add: getPair_def exampleUtils_splitPairId exampleService_pair)
  show "getPair exampleUtils exampleService ''LTC/BTC'' =
     Inr (''LTC'', ''BTC'',
       \<lparr>rate = exampleRateThird, limits = Some \<lparr>maximal = 4294967, minimal = 1000\<rparr>\<rparr>)"
    by (simp add: getPair_def exampleUtils_splitPairId exampleService_pair)
  show "getPair exampleUtils exampleService ''L-BTC/BTC'' =
     Inr (''L-BTC'', ''BTC'',
       \<lparr>rate = exampleRateTenth, limits = Some \<lparr>maximal = 4294967, minimal = 1000\<rparr>\<rparr>)"
    by (simp add: getPair_def split exampleService_pair)
qed

lemma exampleService_fields:
  "allowReverseSwaps exampleService"
  "providerGetTimeout exampleService ''BTC/BTC'' side type = Inr 144"
  "providerGetTimeout exampleService ''LTC/BTC'' side type = Inr 144"
  "providerGetTimeout exampleService ''L-BTC/BTC'' side type = Inr 144"
  "getFees exampleService pairId r side amount type =
     (if amount = 1000 then Inr (500, 600) else Inr (500, 1000))"
  "wallets exampleService ''BTC'' = Some \<lparr>supportsSegwit = True\<rparr>"
  "generateId exampleService = ''a1b2c3''"
  "acceptZeroConf exampleService c amount = (amount \<le> 1000000)"
  by (simp_all add: exampleService_def)

lemma exampleService_reverseSwap:
  "swapManagerCreateReverseSwap exampleService call =
     Inr [(''invoice'', JStr ''lnbc1hold''), (''minerFee'', JNum 300),
          (''keyIndex'', JNum 8), (''redeemScript'', JStr ''8201''),
          (''lockupTransaction'', JStr ''0200''), (''timeoutBlockHeight'', JNum 800144),
          (''lockupTransactionId'', JStr ''f00d'')]"
  by (simp add: exampleService_def)

lemma exampleService_rates:
  "getRate exampleUtils
     (rate \<lparr>rate = 1, limits = Some \<lparr>maximal = 4294967, minimal = 1000\<rparr>\<rparr>) side type = 1"
  "getRate exampleUtils
     (rate \<lparr>rate = exampleRateThird, limits = Some \<lparr>maximal = 4294967, minimal = 1000\<rparr>\<rparr>)
     SELL ReverseSubmarine = exampleRateThird"
  "getRate exampleUtils
     (rate \<lparr>rate = exampleRateTenth, limits = Some \<lparr>maximal = 4294967, minimal = 1000\<rparr>\<rparr>)
     BUY Submarine = exampleRateTenth"
  by (simp_all add: exampleUtils_getRate toDouble_one)

lemma exampleService_verifyAmount:
  "verifyAmount exampleUtils exampleService ''BTC/BTC'' 1 100000 side type = Inr ()"
  "verifyAmount exampleUtils exampleService ''BTC/BTC'' 1 1000 side type = Inr ()"
  "verifyAmount exampleUtils exampleService ''LTC/BTC'' exampleRateThird 4503 SELL
     ReverseSubmarine = Inr ()"
  "verifyAmount exampleUtils exampleService ''LTC/BTC'' exampleRateThird 300000 SELL
     ReverseSubmarine = Inr ()"
  "verifyAmount exampleUtils exampleService ''L-BTC/BTC'' exampleRateTenth 100000 BUY
     Submarine = Inr ()"
proof -
  show "verifyAmount exampleUtils exampleService ''BTC/BTC'' 1 100000 side type = Inr ()"
    by (simp add: verifyAmount_eq [OF exampleService_pair(1)] toDouble_numeral)
  show "verifyAmount exampleUtils exampleService ''BTC/BTC'' 1 1000 side type = Inr ()"
    by (simp add: verifyAmount_eq [OF exampleService_pair(1)] toDouble_numeral)
  show "verifyAmount exampleUtils exampleService ''LTC/BTC'' exampleRateThird 4503 SELL
     ReverseSubmarine = Inr ()"
    by (simp add: verifyAmount_eq [OF exampleService_pair(2)] exampleRateThird_products)
  show "verifyAmount exampleUtils exampleService ''LTC/BTC'' exampleRateThird 300000 SELL
     ReverseSubmarine = Inr ()"
    by (simp add: verifyAmount_eq [OF exampleService_pair(2)] exampleRateThird_products)
  show "verifyAmount exampleUtils exampleService ''L-BTC/BTC'' exampleRateTenth 100000 BUY
     Submarine = Inr ()"
    by (simp add: verifyAmount_eq [OF exampleService_pair(3)] exampleRateTenth_product)
qed

lemma exampleService_onchainAmounts:
  "toDouble (of_int \<lfloor>toDouble (100000 * 1)\<rfloor> - toDouble (500 + 1000)) = 98500"
  "toDouble (of_int \<lfloor>toDouble (1000 * 1)\<rfloor> - toDouble (500 + 600)) = - 100"
  "toDouble (of_int \<lfloor>toDouble (300000 * exampleRateThird)\<rfloor> - toDouble (500 + 1000)) = 98500"
  "toDouble (of_int \<lfloor>toDouble (4503 * exampleRateThird)\<rfloor> - toDouble (500 + 1000)) = 1"
  by (simp_all add: toDouble_numeral toDouble_neg_numeral toDouble_one exampleRateThird_products)

lemma exampleService_createReverseSwap:
  assumes "getPair exampleUtils exampleService pairId = Inr (b, ''BTC'', pr)"
    and "getOrderSide sideStr = Inr side" and "side = BUY \<longrightarrow> b = ''BTC''"
    and "providerGetTimeout exampleService pairId side ReverseSubmarine = Inr 144"
    and "verifyAmount exampleUtils exampleService pairId
           (getRate exampleUtils (rate pr) side ReverseSubmarine) amount side
           ReverseSubmarine = Inr ()"
    and "getFees exampleService pairId
           (getRate exampleUtils (rate pr) side ReverseSubmarine) side amount
           ReverseSubmarine = Inr (baseFee, percentageFee)"
    and "onchain = toDouble (of_int
           \<lfloor>toDouble (amount * getRate exampleUtils (rate pr) side ReverseSubmarine)\<rfloor> -
             toDouble (baseFee + percentageFee))"
    and "1 \<le> onchain"
  shows "fst (createReverseSwap exampleUtils exampleService emptyServiceState pairId
          sideStr amount []) =
     Inr [(''id'', JStr ''a1b2c3''), (''invoice'', JStr ''lnbc1hold''),
          (''redeemScript'', JStr ''8201''), (''onchainAmount'', JNum onchain),
          (''lockupTransaction'', JStr ''0200''), (''timeoutBlockHeight'', JNum 800144),
          (''lockupTransactionId'', JStr ''f00d'')]"
proof -
  have chain: "getChainCurrency exampleUtils b ''BTC'' side True = ''BTC''"
    using assms(3) by (simp add: exampleUtils_currencies)
  show ?thesis
    unfolding createReverseSwap_eq [OF exampleService_fields(1) assms(1,2,4-7)] chain
    using assms(8)
    by (simp add: getSwapOutputType_def exampleService_fields exampleService_reverseSwap
        getProp_def)
qed

theorem createReverseSwap_onchainAmount_witness:
  "fst (createReverseSwap exampleUtils exampleService emptyServiceState ''BTC/BTC''
          ''buy'' 1000 []) = Inl ONCHAIN_AMOUNT_TOO_LOW \<and>
   getProp (projr (fst (createReverseSwap exampleUtils exampleService emptyServiceState
          ''BTC/BTC'' ''buy'' 100000 []))) ''onchainAmount'' = JNum 98500 \<and>
   getProp (projr (fst (createReverseSwap exampleUtils exampleService emptyServiceState
          ''LTC/BTC'' ''sell'' 300000 []))) ''onchainAmount'' = JNum 98500 \<and>
   (98500 :: real) = of_int \<lfloor>toDouble (300000 * exampleRateThird)\<rfloor> - (500 + 1000) \<and>
   (98500 :: real) + 500 + 1000 \<le> toDouble (300000 * exampleRateThird)"
proof -
  let ?one = "\<lparr>rate = 1, limits = Some \<lparr>maximal = 4294967, minimal = 1000\<rparr>\<rparr>"
  let ?third = "\<lparr>rate = exampleRateThird, limits = Some \<lparr>maximal = 4294967, minimal = 1000\<rparr>\<rparr>"
  have fees: "getFees exampleService p r side 1000 type = Inr (500, 600)"
    "getFees exampleService p r side 100000 type = Inr (500, 1000)"
    "getFees exampleService p r side 300000 type = Inr (500, 1000)"
    for p r side type
    by (simp_all add: exampleService_fields)
  note low = createReverseSwap_onchainAmount [where U = exampleUtils and this = exampleService
      and st = emptyServiceState and key = "[]" and amount = 1000 and onchain = "- 100",
      OF exampleService_fields(1) exampleService_getPair(1) getOrderSide_examples(1)
        exampleService_fields(2), unfolded exampleService_rates,
      OF exampleService_verifyAmount(2) fees(1) exampleService_onchainAmounts(2) [symmetric]]
  have 1: "fst (createReverseSwap exampleUtils exampleService emptyServiceState ''BTC/BTC''
          ''buy'' 1000 []) = Inl ONCHAIN_AMOUNT_TOO_LOW"
    using low by simp
  note whole = createReverseSwap_onchainAmount [where U = exampleUtils and this = exampleService
      and st = emptyServiceState and key = "[]" and amount = 100000 and onchain = 98500,
      OF exampleService_fields(1) exampleService_getPair(1) getOrderSide_examples(1)
        exampleService_fields(2), unfolded exampleService_rates,
      OF exampleService_verifyAmount(1) fees(2) exampleService_onchainAmounts(1) [symmetric]]
  have created: "fst (createReverseSwap exampleUtils exampleService emptyServiceState ''BTC/BTC''
          ''buy'' 100000 []) =
     Inr [(''id'', JStr ''a1b2c3''), (''invoice'', JStr ''lnbc1hold''),
          (''redeemScript'', JStr ''8201''), (''onchainAmount'', JNum 98500),
          (''lockupTransaction'', JStr ''0200''), (''timeoutBlockHeight'', JNum 800144),
          (''lockupTransactionId'', JStr ''f00d'')]"
    by (rule exampleService_createReverseSwap [OF exampleService_getPair(1)
          getOrderSide_examples(1) _ exampleService_fields(2), unfolded exampleService_rates,
          OF _ exampleService_verifyAmount(1) fees(2)
            exampleService_onchainAmounts(1) [symmetric]]) simp_all
  have 2: "getProp (projr (fst (createReverseSwap exampleUtils exampleService emptyServiceState
          ''BTC/BTC'' ''buy'' 100000 []))) ''onchainAmount'' = JNum 98500"
    using whole created by simp
  note third = createReverseSwap_onchainAmount [where U = exampleUtils and this = exampleService
      and st = emptyServiceState and key = "[]" and amount = 300000 and onchain = 98500,
      OF exampleService_fields(1) exampleService_getPair(2) getOrderSide_examples(2)
        exampleService_fields(3), unfolded exampleService_rates,
      OF exampleService_verifyAmount(4) fees(3) exampleService_onchainAmounts(3) [symmetric]]
  have created': "fst (createReverseSwap exampleUtils exampleService emptyServiceState
          ''LTC/BTC'' ''sell'' 300000 []) =
     Inr [(''id'', JStr ''a1b2c3''), (''invoice'', JStr ''lnbc1hold''),
          (''redeemScript'', JStr ''8201''), (''onchainAmount'', JNum 98500),
          (''lockupTransaction'', JStr ''0200''), (''timeoutBlockHeight'', JNum 800144),
          (''lockupTransactionId'', JStr ''f00d'')]"
    by (rule exampleService_createReverseSwap [OF exampleService_getPair(2)
          getOrderSide_examples(2) _ exampleService_fields(3), unfolded exampleService_rates,
          OF _ exampleService_verifyAmount(4) fees(3)
            exampleService_onchainAmounts(3) [symmetric]]) simp_all
  have 3: "getProp (projr (fst (createReverseSwap exampleUtils exampleService emptyServiceState
          ''LTC/BTC'' ''sell'' 300000 []))) ''onchainAmount'' = JNum 98500"
    using third created' by simp
  have bounds: "(500 :: real) \<in> \<int>" "(1000 :: real) \<in> \<int>" "(0 :: real) \<le> 500 + 1000"
    "(500 :: real) + 1000 < 2 ^ 53" "0 \<le> 300000 * exampleRateThird"
    "300000 * exampleRateThird < 2 ^ 51"
    by (simp_all add: exampleRateThird_def)
  have 4: "(98500 :: real) = of_int \<lfloor>toDouble (300000 * exampleRateThird)\<rfloor> - (500 + 1000) \<and>
      (98500 :: real) + 500 + 1000 \<le> toDouble (300000 * exampleRateThird)"
    using third bounds by blast
  show ?thesis
    using 1 2 3 4 by blast
qed

text \<open>The claim as stated fails where the product is rounded upwards: at the rate
  \<open>0.3333333333333333\<close> an invoice of 4503 with the fees 500 and 1000 makes a reverse swap
  with the \<open>onchainAmount\<close> 1, where \<open>floor (4503 * rate) - 1500\<close> is 0 and \<open>1 + 1500\<close> is
  more than \<open>4503 * rate\<close>. The double product is \<open>1501\<close>.\<close>

theorem createReverseSwap_rounding_counterexample:
  "fst (createReverseSwap exampleUtils exampleService emptyServiceState ''LTC/BTC''
          ''sell'' 4503 []) =
     Inr [(''id'', JStr ''a1b2c3''), (''invoice'', JStr ''lnbc1hold''),
          (''redeemScript'', JStr ''8201''), (''onchainAmount'', JNum 1),
          (''lockupTransaction'', JStr ''0200''), (''timeoutBlockHeight'', JNum 800144),
          (''lockupTransactionId'', JStr ''f00d'')] \<and>
   rateProviderPairs exampleService ''LTC/BTC'' =
     Some \<lparr>rate = exampleRateThird, limits = Some \<lparr>maximal = 4294967, minimal = 1000\<rparr>\<rparr> \<and>
   getRate exampleUtils exampleRateThird SELL ReverseSubmarine = exampleRateThird \<and>
   getFees exampleService ''LTC/BTC'' exampleRateThird SELL 4503 ReverseSubmarine =
     Inr (500, 1000) \<and>
   of_int \<lfloor>4503 * exampleRateThird\<rfloor> - (500 + 1000) < (1 :: real) \<and>
   \<not> (1 + 500 + 1000 \<le> 4503 * exampleRateThird) \<and>
   toDouble (4503 * exampleRateThird) = 1501"
proof -
  have fees: "getFees exampleService p r side 4503 type = Inr (500, 1000)" for p r side type
    by (simp add: exampleService_fields)
  have created: "fst (createReverseSwap exampleUtils exampleService emptyServiceState
          ''LTC/BTC'' ''sell'' 4503 []) =
     Inr [(''id'', JStr ''a1b2c3''), (''invoice'', JStr ''lnbc1hold''),
          (''redeemScript'', JStr ''8201''), (''onchainAmount'', JNum 1),
          (''lockupTransaction'', JStr ''0200''), (''timeoutBlockHeight'', JNum 800144),
          (''lockupTransactionId'', JStr ''f00d'')]"
    by (rule exampleService_createReverseSwap [OF exampleService_getPair(2)
          getOrderSide_examples(2) _ exampleService_fields(3), unfolded exampleService_rates,
          OF _ exampleService_verifyAmount(3) fees
            exampleService_onchainAmounts(4) [symmetric]]) simp_all
  have rate: "getRate exampleUtils exampleRateThird SELL ReverseSubmarine = exampleRateThird"
    by (simp add: exampleUtils_getRate)
  have floor: "\<lfloor>4503 * exampleRateThird\<rfloor> = 1500"
    by (simp add: exampleRateThird_def)
  have exact: "of_int \<lfloor>4503 * exampleRateThird\<rfloor> - (500 + 1000) < (1 :: real)"
    unfolding floor by simp
  have above: "\<not> (1 + 500 + 1000 \<le> 4503 * exampleRateThird)"
    by (simp add: exampleRateThird_def)
  show ?thesis
    using created exampleService_pair(2) rate fees exact above exampleRateThird_products(2)
    by blast
qed

lemma createSwap_eq:
  assumes "getSwapByInvoice st payreq = None"
    and "getPair U this pairId = Inr (b, q, pr)"
    and "getOrderSide sideStr = Inr side"
    and "providerGetTimeout this pairId side Submarine = Inr delta"
    and "getInvoiceAmt U payreq = Inr amount"
    and "verifyAmount U this pairId (getRate U (rate pr) side Submarine) amount side
           Submarine = Inr ()"
    and "getFees this pairId (getRate U (rate pr) side Submarine) side amount Submarine =
           Inr (baseFee, percentageFee)"
    and "expected =
           toDouble (toDouble (of_int \<lceil>toDouble (amount * getRate U (rate pr) side Submarine)\<rceil> +
             baseFee) + percentageFee)"
    and "zeroConf = acceptZeroConf this (getChainCurrency U b q side False) expected"
  shows "createSwap U this st pairId sideStr payreq key =
     (case getSwapOutputType this (getChainCurrency U b q side False) False of
        Inl e \<Rightarrow> (Inl e, st)
      | Inr outputType \<Rightarrow>
         (case swapManagerCreateSwap this
                 (CreateSwapCall (generateId this) b q side payreq expected key outputType delta
                    zeroConf) of
            Inl f \<Rightarrow>
              (Inl (Rejected f),
               st\<lparr>swapManagerCalls := swapManagerCalls st @
                    [CreateSwapCall (generateId this) b q side payreq expected key outputType
                       delta zeroConf]\<rparr>)
          | Inr res \<Rightarrow>
              (Inr [(''id'', JStr (generateId this)),
                    (''address'', getProp res ''address''),
                    (''redeemScript'', getProp res ''redeemScript''),
                    (''acceptZeroConf'', JBool zeroConf),
                    (''expectedAmount'', JNum expected),
                    (''timeoutBlockHeight'', getProp res ''timeoutBlockHeight''),
                    (''bip21'', JStr (encodeBip21 this (getChainCurrency U b q side False)
                       (getProp res ''address'') expected
                       (getSwapMemo U (getLightningCurrency U b q side False) ChainToChain)))],
               st\<lparr>swapManagerCalls := swapManagerCalls st @
                    [CreateSwapCall (generateId this) b q side payreq expected key outputType
                       delta zeroConf],
                  swaps := swaps st @
                    [[(''id'', JStr (generateId this)),
                      (''invoice'', JStr payreq),
                      (''keyIndex'', getProp res ''keyIndex''),
                      (''redeemScript'', getProp res ''redeemScript''),
                      (''acceptZeroConf'', JBool zeroConf),
                      (''timeoutBlockHeight'', getProp res ''timeoutBlockHeight''),
                      (''pair'', JStr pairId),
                      (''orderSide'', JSide side),
                      (''fee'', JNum percentageFee),
                      (''lockupAddress'', getProp res ''address'')]]\<rparr>)))"
  using assms(1-7) unfolding assms(8,9)
  by (simp add: createSwap_def Let_def Math_ceil_def split: sum.splits)

lemma expectedAmount_whole:
  assumes "baseFee \<in> \<int>" and "percentageFee \<in> \<int>"
    and "0 \<le> baseFee" and "baseFee < 2 ^ 51"
    and "0 \<le> percentageFee" and "percentageFee < 2 ^ 51"
    and "0 \<le> x" and "x < 2 ^ 51"
  shows "toDouble (toDouble (of_int \<lceil>toDouble x\<rceil> + baseFee) + percentageFee) =
     of_int \<lceil>toDouble x\<rceil> + baseFee + percentageFee"
proof -
  obtain s :: int where s: "baseFee = of_int s"
    using assms(1) by (auto elim: Ints_cases)
  obtain p :: int where p: "percentageFee = of_int p"
    using assms(2) by (auto elim: Ints_cases)
  have s0: "0 \<le> s" "s < 2 ^ 51" and p0: "0 \<le> p" "p < 2 ^ 51"
    using assms(3-6) unfolding s p by simp_all
  define c where "c = \<lceil>toDouble x\<rceil>"
  have c: "0 \<le> c" "c \<le> 2 ^ 51 + 1"
    unfolding c_def by (rule toDouble_whole_product(3,4) [OF assms(7,8)])+
  have "\<bar>c + s\<bar> < 2 ^ 53"
    using c s0 by simp
  then have first: "toDouble (of_int (c + s)) = of_int (c + s)"
    by (rule toDouble_of_int)
  have "\<bar>c + s + p\<bar> < 2 ^ 53"
    using c s0 p0 by simp
  then have second: "toDouble (of_int (c + s + p)) = of_int (c + s + p)"
    by (rule toDouble_of_int)
  have "toDouble (toDouble (of_int c + of_int s) + of_int p) = of_int c + of_int s + of_int p"
    using first second by simp
  then show ?thesis
    unfolding s p c_def .
qed

text \<open>
  Claim C7, as amended. For a submarine-swap creation that passes the verification and
  gets its fees, let \<open>expected\<close> be the ceiling of the double product \<open>invoiceAmount * rate\<close>
  with \<open>baseFee\<close> and then \<open>percentageFee\<close> added as doubles are added. If the creation
  succeeds, \<open>expected\<close> is the \<open>expectedAmount\<close> returned to the caller and the one handed
  to the swap manager; the row persisted has the ten fields listed, and no
  \<open>expectedAmount\<close> among them. For whole fees from 0 to below \<open>2^51\<close> and an exact product
  from 0 to below \<open>2^51\<close>, no rounding takes place after the product: \<open>expected\<close> is the
  ceiling of the double product plus the two fees.
\<close>

theorem createSwap_expectedAmount:
  assumes "getSwapByInvoice st payreq = None"
    and "getPair U this pairId = Inr (b, q, pr)"
    and "getOrderSide sideStr = Inr side"
    and "providerGetTimeout this pairId side Submarine = Inr delta"
    and "getInvoiceAmt U payreq = Inr amount"
    and "verifyAmount U this pairId (getRate U (rate pr) side Submarine) amount side
           Submarine = Inr ()"
    and "getFees this pairId (getRate U (rate pr) side Submarine) side amount Submarine =
           Inr (baseFee, percentageFee)"
    and "expected =
           toDouble (toDouble (of_int \<lceil>toDouble (amount * getRate U (rate pr) side Submarine)\<rceil> +
             baseFee) + percentageFee)"
    and "zeroConf = acceptZeroConf this (getChainCurrency U b q side False) expected"
  shows "(\<forall>res. fst (createSwap U this st pairId sideStr payreq key) = Inr res \<longrightarrow>
           getProp res ''expectedAmount'' = JNum expected \<and>
           (case getSwapOutputType this (getChainCurrency U b q side False) False of
              Inl e \<Rightarrow> False
            | Inr outputType \<Rightarrow>
                swapManagerCalls (snd (createSwap U this st pairId sideStr payreq key)) =
                  swapManagerCalls st @
                    [CreateSwapCall (generateId this) b q side payreq expected key outputType
                       delta zeroConf]) \<and>
           length (swaps (snd (createSwap U this st pairId sideStr payreq key))) =
             Suc (length (swaps st)) \<and>
           map fst (last (swaps (snd (createSwap U this st pairId sideStr payreq key)))) =
             [''id'', ''invoice'', ''keyIndex'', ''redeemScript'', ''acceptZeroConf'',
              ''timeoutBlockHeight'', ''pair'', ''orderSide'', ''fee'', ''lockupAddress''] \<and>
           map_of (last (swaps (snd (createSwap U this st pairId sideStr payreq key))))
             ''expectedAmount'' = None) \<and>
         (baseFee \<in> \<int> \<and> percentageFee \<in> \<int> \<and>
          0 \<le> baseFee \<and> baseFee < 2 ^ 51 \<and> 0 \<le> percentageFee \<and> percentageFee < 2 ^ 51 \<and>
          0 \<le> amount * getRate U (rate pr) side Submarine \<and>
          amount * getRate U (rate pr) side Submarine < 2 ^ 51 \<longrightarrow>
            expected =
              of_int \<lceil>toDouble (amount * getRate U (rate pr) side Submarine)\<rceil> + baseFee +
                percentageFee)"
proof -
  have run: "\<forall>res. fst (createSwap U this st pairId sideStr payreq key) = Inr res \<longrightarrow>
           getProp res ''expectedAmount'' = JNum expected \<and>
           (case getSwapOutputType this (getChainCurrency U b q side False) False of
              Inl e \<Rightarrow> False
            | Inr outputType \<Rightarrow>
                swapManagerCalls (snd (createSwap U this st pairId sideStr payreq key)) =
                  swapManagerCalls st @
                    [CreateSwapCall (generateId this) b q side payreq expected key outputType
                       delta zeroConf]) \<and>
           length (swaps (snd (createSwap U this st pairId sideStr payreq key))) =
             Suc (length (swaps st)) \<and>
           map fst (last (swaps (snd (createSwap U this st pairId sideStr payreq key)))) =
             [''id'', ''invoice'', ''keyIndex'', ''redeemScript'', ''acceptZeroConf'',
              ''timeoutBlockHeight'', ''pair'', ''orderSide'', ''fee'', ''lockupAddress''] \<and>
           map_of (last (swaps (snd (createSwap U this st pairId sideStr payreq key))))
             ''expectedAmount'' = None"
    unfolding createSwap_eq [OF assms, of key]
    by (auto simp: getProp_def split: sum.splits)
  have whole: "expected =
      of_int \<lceil>toDouble (amount * getRate U (rate pr) side Submarine)\<rceil> + baseFee +
        percentageFee"
    if "baseFee \<in> \<int>" "percentageFee \<in> \<int>" "0 \<le> baseFee" "baseFee < 2 ^ 51"
      "0 \<le> percentageFee" "percentageFee < 2 ^ 51"
      "0 \<le> amount * getRate U (rate pr) side Submarine"
      "amount * getRate U (rate pr) side Submarine < 2 ^ 51"
    unfolding assms(8) by (rule expectedAmount_whole [OF that])
  show ?thesis
    using run whole by blast
qed

lemma emptyServiceState_fields:
  "getSwapByInvoice emptyServiceState i = None"
  "swaps emptyServiceState = []"
  "reverseSwaps emptyServiceState = []"
  "swapManagerCalls emptyServiceState = []"
  by (simp_all add: emptyServiceState_def getSwapByInvoice_def)

lemma exampleUtils_invoice:
  "getInvoiceAmt exampleUtils ''lnbc1m'' = Inr 100000"
  "getSwapMemo exampleUtils c type = ''Send to '' @ c"
  by (simp_all add: exampleUtils_def)

lemma exampleService_swapManager:
  "swapManagerCreateSwap exampleService call =
     Inr [(''address'', JStr ''bcrt1qswap''), (''keyIndex'', JNum 7),
          (''redeemScript'', JStr ''a914''), (''timeoutBlockHeight'', JNum 800144)]"
  "encodeBip21 exampleService c address amount memo = ''bitcoin:?label='' @ memo"
  by (simp_all add: exampleService_def)

lemma exampleService_expectedAmounts:
  "toDouble (toDouble (of_int \<lceil>toDouble (100000 * 1)\<rceil> + 500) + 1000) = 101500"
  "toDouble (toDouble (of_int \<lceil>toDouble (100000 * exampleRateTenth)\<rceil> + 500) + 1000) = 11500"
  by (simp_all add: toDouble_numeral exampleRateTenth_product)

lemma exampleService_createSwap:
  assumes "getPair exampleUtils exampleService pairId = Inr (b, ''BTC'', pr)"
    and "providerGetTimeout exampleService pairId BUY Submarine = Inr 144"
    and "verifyAmount exampleUtils exampleService pairId
           (getRate exampleUtils (rate pr) BUY Submarine) 100000 BUY Submarine = Inr ()"
    and "expected = toDouble (toDouble (of_int
           \<lceil>toDouble (100000 * getRate exampleUtils (rate pr) BUY Submarine)\<rceil> + 500) + 1000)"
    and "expected \<le> 1000000"
  shows "createSwap exampleUtils exampleService emptyServiceState pairId ''buy'' ''lnbc1m'' [] =
     (Inr [(''id'', JStr ''a1b2c3''), (''address'', JStr ''bcrt1qswap''),
           (''redeemScript'', JStr ''a914''), (''acceptZeroConf'', JBool True),
           (''expectedAmount'', JNum expected), (''timeoutBlockHeight'', JNum 800144),
           (''bip21'', JStr (''bitcoin:?label=Send to '' @ b))],
      \<lparr>swaps = [[(''id'', JStr ''a1b2c3''), (''invoice'', JStr ''lnbc1m''),
                  (''keyIndex'', JNum 7), (''redeemScript'', JStr ''a914''),
                  (''acceptZeroConf'', JBool True), (''timeoutBlockHeight'', JNum 800144),
                  (''pair'', JStr pairId), (''orderSide'', JSide BUY),
                  (''fee'', JNum 1000), (''lockupAddress'', JStr ''bcrt1qswap'')]],
        reverseSwaps = [],
        swapManagerCalls =
          [CreateSwapCall ''a1b2c3'' b ''BTC'' BUY ''lnbc1m'' expected [] Compatibility
             144 True]\<rparr>)"
proof -
  have fees: "getFees exampleService pairId (getRate exampleUtils (rate pr) BUY Submarine) BUY
      100000 Submarine = Inr (500, 1000)"
    by (simp add: exampleService_fields)
  have zeroConf: "True =
      acceptZeroConf exampleService (getChainCurrency exampleUtils b ''BTC'' BUY False) expected"
    using assms(5) by (simp add: exampleService_fields)
  show ?thesis
    unfolding createSwap_eq [OF emptyServiceState_fields(1) assms(1) getOrderSide_examples(1)
        assms(2) exampleUtils_invoice(1) assms(3) fees assms(4) zeroConf]
    by (simp add: exampleUtils_currencies getSwapOutputType_def exampleService_fields
        exampleService_swapManager exampleUtils_invoice getProp_def emptyServiceState_def)
qed

lemma exampleService_createSwap_whole:
  "createSwap exampleUtils exampleService emptyServiceState ''BTC/BTC'' ''buy'' ''lnbc1m'' [] =
     (Inr [(''id'', JStr ''a1b2c3''), (''address'', JStr ''bcrt1qswap''),
           (''redeemScript'', JStr ''a914''), (''acceptZeroConf'', JBool True),
           (''expectedAmount'', JNum 101500), (''timeoutBlockHeight'', JNum 800144),
           (''bip21'', JStr ''bitcoin:?label=Send to BTC'')],
      \<lparr>swaps = [[(''id'', JStr ''a1b2c3''), (''invoice'', JStr ''lnbc1m''),
                  (''keyIndex'', JNum 7), (''redeemScript'', JStr ''a914''),
                  (''acceptZeroConf'', JBool True), (''timeoutBlockHeight'', JNum 800144),
                  (''pair'', JStr ''BTC/BTC''), (''orderSide'', JSide BUY),
                  (''fee'', JNum 1000), (''lockupAddress'', JStr ''bcrt1qswap'')]],
        reverseSwaps = [],
        swapManagerCalls =
          [CreateSwapCall ''a1b2c3'' ''BTC'' ''BTC'' BUY ''lnbc1m'' 101500 [] Compatibility
             144 True]\<rparr>)"
  using exampleService_createSwap [OF exampleService_getPair(1) exampleService_fields(2),
      unfolded exampleService_rates,
      OF exampleService_verifyAmount(1) exampleService_expectedAmounts(1) [symmetric]]
  by simp

lemma exampleService_createSwap_tenth:
  "createSwap exampleUtils exampleService emptyServiceState ''L-BTC/BTC'' ''buy'' ''lnbc1m'' [] =
     (Inr [(''id'', JStr ''a1b2c3''), (''address'', JStr ''bcrt1qswap''),
           (''redeemScript'', JStr ''a914''), (''acceptZeroConf'', JBool True),
           (''expectedAmount'', JNum 11500), (''timeoutBlockHeight'', JNum 800144),
           (''bip21'', JStr ''bitcoin:?label=Send to L-BTC'')],
      \<lparr>swaps = [[(''id'', JStr ''a1b2c3''), (''invoice'', JStr ''lnbc1m''),
                  (''keyIndex'', JNum 7), (''redeemScript'', JStr ''a914''),
                  (''acceptZeroConf'', JBool True), (''timeoutBlockHeight'', JNum 800144),
                  (''pair'', JStr ''L-BTC/BTC''), (''orderSide'', JSide BUY),
                  (''fee'', JNum 1000), (''lockupAddress'', JStr ''bcrt1qswap'')]],
        reverseSwaps = [],
        swapManagerCalls =
          [CreateSwapCall ''a1b2c3'' ''L-BTC'' ''BTC'' BUY ''lnbc1m'' 11500 [] Compatibility
             144 True]\<rparr>)"
  using exampleService_createSwap [OF exampleService_getPair(3) exampleService_fields(4),
      unfolded exampleService_rates,
      OF exampleService_verifyAmount(5) exampleService_expectedAmounts(2) [symmetric]]
  by simp

theorem createSwap_expectedAmount_witness:
  "getProp (projr (fst (createSwap exampleUtils exampleService emptyServiceState ''BTC/BTC''
      ''buy'' ''lnbc1m'' []))) ''expectedAmount'' = JNum 101500 \<and>
   swapManagerCalls (snd (createSwap exampleUtils exampleService emptyServiceState ''BTC/BTC''
      ''buy'' ''lnbc1m'' [])) =
     [CreateSwapCall ''a1b2c3'' ''BTC'' ''BTC'' BUY ''lnbc1m'' 101500 [] Compatibility 144 True] \<and>
   getProp (projr (fst (createSwap exampleUtils exampleService emptyServiceState ''L-BTC/BTC''
      ''buy'' ''lnbc1m'' []))) ''expectedAmount'' = JNum 11500 \<and>
   (11500 :: real) = of_int \<lceil>toDouble (100000 * exampleRateTenth)\<rceil> + 500 + 1000"
proof -
  have fees: "getFees exampleService p r side 100000 type = Inr (500, 1000)" for p r side type
    by (simp add: exampleService_fields)
  have zeroConf: "True = acceptZeroConf exampleService c 101500"
    "True = acceptZeroConf exampleService c 11500" for c
    by (simp_all add: exampleService_fields)
  note whole = createSwap_expectedAmount [where U = exampleUtils and this = exampleService
      and key = "[]" and expected = 101500 and zeroConf = True,
      OF emptyServiceState_fields(1) exampleService_getPair(1) getOrderSide_examples(1)
        exampleService_fields(2) exampleUtils_invoice(1), unfolded exampleService_rates,
      OF exampleService_verifyAmount(1) fees exampleService_expectedAmounts(1) [symmetric]
        zeroConf(1)]
  have 1: "getProp (projr (fst (createSwap exampleUtils exampleService emptyServiceState
      ''BTC/BTC'' ''buy'' ''lnbc1m'' []))) ''expectedAmount'' = JNum 101500 \<and>
   swapManagerCalls (snd (createSwap exampleUtils exampleService emptyServiceState ''BTC/BTC''
      ''buy'' ''lnbc1m'' [])) =
     [CreateSwapCall ''a1b2c3'' ''BTC'' ''BTC'' BUY ''lnbc1m'' 101500 [] Compatibility 144 True]"
    using whole
    by (simp add: exampleService_createSwap_whole exampleUtils_currencies getSwapOutputType_def
        exampleService_fields emptyServiceState_fields)
  note tenth = createSwap_expectedAmount [where U = exampleUtils and this = exampleService
      and key = "[]" and expected = 11500 and zeroConf = True,
      OF emptyServiceState_fields(1) exampleService_getPair(3) getOrderSide_examples(1)
        exampleService_fields(4) exampleUtils_invoice(1), unfolded exampleService_rates,
      OF exampleService_verifyAmount(5) fees exampleService_expectedAmounts(2) [symmetric]
        zeroConf(2)]
  have 2: "getProp (projr (fst (createSwap exampleUtils exampleService emptyServiceState
      ''L-BTC/BTC'' ''buy'' ''lnbc1m'' []))) ''expectedAmount'' = JNum 11500"
    using tenth by (simp add: exampleService_createSwap_tenth)
  have bounds: "(500 :: real) \<in> \<int>" "(1000 :: real) \<in> \<int>" "(0 :: real) \<le> 500"
    "(500 :: real) < 2 ^ 51" "(0 :: real) \<le> 1000" "(1000 :: real) < 2 ^ 51"
    "0 \<le> 100000 * exampleRateTenth" "100000 * exampleRateTenth < 2 ^ 51"
    by (simp_all add: exampleRateTenth_def)
  have 3: "(11500 :: real) = of_int \<lceil>toDouble (100000 * exampleRateTenth)\<rceil> + 500 + 1000"
    using tenth bounds by blast
  show ?thesis
    using 1 2 3 by blast
qed

text \<open>The claim as stated fails: in the run of the spec's first scenario (an invoice of
  100000, rate 1, fees 500 and 1000) the row persisted carries no \<open>expectedAmount\<close>.\<close>

theorem createSwap_persisted_counterexample:
  "swaps (snd (createSwap exampleUtils exampleService emptyServiceState ''BTC/BTC''
      ''buy'' ''lnbc1m'' [])) =
     [[(''id'', JStr ''a1b2c3''), (''invoice'', JStr ''lnbc1m''),
       (''keyIndex'', JNum 7), (''redeemScript'', JStr ''a914''),
       (''acceptZeroConf'', JBool True), (''timeoutBlockHeight'', JNum 800144),
       (''pair'', JStr ''BTC/BTC''), (''orderSide'', JSide BUY),
       (''fee'', JNum 1000), (''lockupAddress'', JStr ''bcrt1qswap'')]] \<and>
   getProp (last (swaps (snd (createSwap exampleUtils exampleService emptyServiceState
      ''BTC/BTC'' ''buy'' ''lnbc1m'' [])))) ''expectedAmount'' \<noteq> JNum 101500"
  by (simp add: exampleService_createSwap_whole getProp_def)

section \<open>Cooperative signatures\<close>

lemma exampleUtils_hex:
  "getHexString exampleUtils (sha256 exampleUtils [2, 3, 4]) = ''030405''"
  "getHexString exampleUtils [2, 3, 4] = ''020304''"
  "getHexString exampleUtils (sha256 exampleUtils [7, 7, 7]) = ''080808''"
  "getHexBuffer exampleUtils ''0a0b'' = [10, 11]"
  by (simp_all add: exampleUtils_def exampleHexDigit_def exampleHexValue_def)

lemma signWith_not_ineligible:
  "signWith U this c s swap k n t i \<noteq> Inl NOT_ELIGIBLE_FOR_COOPERATIVE_REFUND"
  "signWith U this c s swap k n t i \<noteq> Inl NOT_ELIGIBLE_FOR_COOPERATIVE_CLAIM"
  "signWith U this c s swap k n t i \<noteq> Inl INCORRECT_PREIMAGE"
  by (auto simp: signWith_def split: sum.splits option.splits)

lemma cln_error_means_payment:
  assumes "swap_type swap \<noteq> Chain" and "clnClient cur = Some cln"
    and "invoice swap = Some i" and "checkPayStatus cln i = Inl e"
  shows "hasNonFailedLightningPayment U cur swap"
  using assms by (simp add: hasNonFailedLightningPayment_def clnHasPayment_def)

lemma lnd_error_swallowed:
  assumes "lndClient cur = Some lnd"
    and "trackPayment lnd (getHexBuffer U (preimageHash swap)) = Inl e"
  shows "hasNonFailedLightningPayment U cur swap =
           (swap_type swap \<noteq> Chain \<and> clnHasPayment cur swap)"
  using assms
  by (simp add: hasNonFailedLightningPayment_def lndHasNonFailedPayment_def)

lemma signRefund_eq:
  assumes "swapRepository db swapId = Some swap"
    and "splitPairId U (pair swap) = (b, q)"
    and "currencies this (getChainCurrency U b q (orderSide swap) False) = Some cur"
    and "chainClient cur \<noteq> None"
  shows "signRefund U this db swapId nonce tx i =
     (if version swap = Taproot \<and> status swap \<in> set FailedSwapUpdateEvents \<and>
         (case currencies this (getLightningCurrency U b q (orderSide swap) False) of
            None \<Rightarrow> True
          | Some lnc \<Rightarrow> \<not> hasNonFailedLightningPayment U lnc swap)
      then signWith U this (Some cur) (symbol cur) swap (refundPublicKey swap) nonce tx i
      else Inl NOT_ELIGIBLE_FOR_COOPERATIVE_REFUND)"
  using assms
  by (auto simp: signRefund_def isEligibleForRefund_def split: option.splits)

text \<open>
  Claim C1. For a \<open>signRefund\<close> call on an existing swap whose chain currency has a chain
  client (is UTXO-based), call the swap eligible when its version is \<open>Taproot\<close>, its status
  is one of \<open>FailedSwapUpdateEvents\<close>, and either there is no Lightning currency or
  \<open>hasNonFailedLightningPayment\<close> is false. A partial signature is returned only when the
  swap is eligible, and then the call is the co-signing of the refund; in every other
  case the call fails with \<open>NOT_ELIGIBLE_FOR_COOPERATIVE_REFUND\<close>. In
  \<open>hasNonFailedLightningPayment\<close>, for a swap that is not a chain swap and has an invoice,
  an error of CLN's \<open>checkPayStatus\<close> gives \<open>true\<close>.
\<close>

theorem signRefund_eligibility:
  assumes "swapRepository db swapId = Some swap"
    and "splitPairId U (pair swap) = (b, q)"
    and "currencies this (getChainCurrency U b q (orderSide swap) False) = Some cur"
    and "chainClient cur \<noteq> None"
    and "eligible =
           (version swap = Taproot \<and> status swap \<in> set FailedSwapUpdateEvents \<and>
            (case currencies this (getLightningCurrency U b q (orderSide swap) False) of
               None \<Rightarrow> True
             | Some lnc \<Rightarrow> \<not> hasNonFailedLightningPayment U lnc swap))"
  shows "(\<forall>sig. signRefund U this db swapId nonce tx i = Inr sig \<longrightarrow> eligible) \<and>
         (\<not> eligible \<longrightarrow>
            signRefund U this db swapId nonce tx i = Inl NOT_ELIGIBLE_FOR_COOPERATIVE_REFUND) \<and>
         (eligible \<longrightarrow>
            signRefund U this db swapId nonce tx i =
              signWith U this (Some cur) (symbol cur) swap (refundPublicKey swap) nonce tx i \<and>
            signRefund U this db swapId nonce tx i \<noteq> Inl NOT_ELIGIBLE_FOR_COOPERATIVE_REFUND) \<and>
         (\<forall>lnc cln inv' e.
            swap_type swap \<noteq> Chain \<and> clnClient lnc = Some cln \<and> invoice swap = Some inv' \<and>
            checkPayStatus cln inv' = Inl e \<longrightarrow>
            hasNonFailedLightningPayment U lnc swap)"
  unfolding signRefund_eq [OF assms(1-4)] assms(5)
  using signWith_not_ineligible(1) cln_error_means_payment
  by auto

lemma exampleRepositories_lookup:
  "swapRepository exampleRepositories ''sub1'' = Some exampleSwap"
  "reverseSwapRepository exampleRepositories ''rev1'' = Some exampleReverseSwap"
  "reverseSwapRepository exampleRepositories ''rev2'' =
     Some (exampleReverseSwap\<lparr>swap_id := ''rev2'', status := SwapCreated\<rparr>)"
  by (simp_all add: exampleRepositories_def)

lemma exampleSwap_pair:
  "splitPairId exampleUtils (pair exampleSwap) = (''BTC'', ''BTC'')"
  "splitPairId exampleUtils (pair exampleReverseSwap) = (''BTC'', ''BTC'')"
  by (simp_all add: exampleSwap_def exampleReverseSwap_def exampleUtils_splitPairId)

lemma exampleSwap_fields:
  "version exampleSwap = Taproot" "status exampleSwap = SwapExpired"
  "swap_type exampleSwap = Submarine" "invoice exampleSwap = Some ''lnbc1m''"
  "refundPublicKey exampleSwap = Some ''02ab''" "orderSide exampleSwap = BUY"
  by (simp_all add: exampleSwap_def)

lemma exampleSigner_currency:
  "currencies exampleSigner (getChainCurrency exampleUtils ''BTC'' ''BTC'' side isReverse) =
     Some exampleCurrency"
  "currencies exampleSigner (getLightningCurrency exampleUtils ''BTC'' ''BTC'' side isReverse) =
     Some exampleCurrency"
  by (simp_all add: exampleSigner_def exampleUtils_currencies exampleCurrencies_BTC)

lemma exampleSignerInFlight_currency:
  "currencies exampleSignerInFlight
       (getChainCurrency exampleUtils ''BTC'' ''BTC'' side isReverse) =
     Some exampleCurrencyInFlight"
  "currencies exampleSignerInFlight
       (getLightningCurrency exampleUtils ''BTC'' ''BTC'' side isReverse) =
     Some exampleCurrencyInFlight"
  by (simp_all add: exampleSignerInFlight_def exampleUtils_currencies)

lemma exampleLnd_trackPayment:
  "trackPayment exampleLnd h = Inl (Failure ''payment not found'')"
  by (simp add: exampleLnd_def)

lemma example_payments:
  "\<not> hasNonFailedLightningPayment exampleUtils exampleCurrency exampleSwap"
  "hasNonFailedLightningPayment exampleUtils exampleCurrencyInFlight exampleSwap"
  "hasNonFailedLightningPayment exampleUtils exampleCurrencyFailing exampleSwap"
  by (simp_all add: hasNonFailedLightningPayment_def lndHasNonFailedPayment_def
      clnHasPayment_def exampleCurrency_fields exampleCurrencyInFlight_def
      exampleCurrencyFailing_def exampleSwap_fields exampleLnd_trackPayment)

lemma exampleSigner_signWith:
  "signWith exampleUtils exampleSigner c s exampleSwap (Some k) n t i =
     Inr \<lparr>pubNonce = [1, 2, 3], signature = [4, 5, 6]\<rparr>"
  "signWith exampleUtils exampleSigner c s (exampleReverseSwap\<lparr>preimage := p\<rparr>) (Some k) n t i =
     Inr \<lparr>pubNonce = [1, 2, 3], signature = [4, 5, 6]\<rparr>"
  by (simp_all add: signWith_def exampleSigner_def exampleSwap_def exampleReverseSwap_def)

lemma exampleCurrency_chainClient:
  "chainClient exampleCurrency \<noteq> None" "chainClient exampleCurrencyInFlight \<noteq> None"
  by (simp_all add: exampleCurrency_def exampleCurrencyInFlight_def)

theorem signRefund_eligibility_witness:
  "signRefund exampleUtils exampleSigner exampleRepositories ''sub1'' [9] [8] 0 =
     Inr \<lparr>pubNonce = [1, 2, 3], signature = [4, 5, 6]\<rparr> \<and>
   signRefund exampleUtils exampleSignerInFlight exampleRepositories ''sub1'' [9] [8] 0 =
     Inl NOT_ELIGIBLE_FOR_COOPERATIVE_REFUND \<and>
   hasNonFailedLightningPayment exampleUtils exampleCurrencyFailing exampleSwap"
proof -
  note quiet = signRefund_eligibility [where U = exampleUtils and this = exampleSigner
        and db = exampleRepositories and swapId = "''sub1''" and nonce = "[9]" and tx = "[8]"
        and i = 0,
        OF exampleRepositories_lookup(1) exampleSwap_pair(1) exampleSigner_currency(1)
           exampleCurrency_chainClient(1) refl]
  note flying = signRefund_eligibility [where U = exampleUtils
        and this = exampleSignerInFlight
        and db = exampleRepositories and swapId = "''sub1''" and nonce = "[9]" and tx = "[8]"
        and i = 0,
        OF exampleRepositories_lookup(1) exampleSwap_pair(1)
           exampleSignerInFlight_currency(1) exampleCurrency_chainClient(2) refl]
  have e1: "version exampleSwap = Taproot \<and> status exampleSwap \<in> set FailedSwapUpdateEvents \<and>
      (case currencies exampleSigner
              (getLightningCurrency exampleUtils ''BTC'' ''BTC'' (orderSide exampleSwap) False) of
         None \<Rightarrow> True
       | Some lnc \<Rightarrow> \<not> hasNonFailedLightningPayment exampleUtils lnc exampleSwap)"
    by (simp add: exampleSigner_currency example_payments exampleSwap_fields
        FailedSwapUpdateEvents_def)
  have e2: "\<not> (version exampleSwap = Taproot \<and> status exampleSwap \<in> set FailedSwapUpdateEvents \<and>
      (case currencies exampleSignerInFlight
              (getLightningCurrency exampleUtils ''BTC'' ''BTC'' (orderSide exampleSwap) False) of
         None \<Rightarrow> True
       | Some lnc \<Rightarrow> \<not> hasNonFailedLightningPayment exampleUtils lnc exampleSwap))"
    by (simp add: exampleSignerInFlight_currency example_payments)
  have s1: "signRefund exampleUtils exampleSigner exampleRepositories ''sub1'' [9] [8] 0 =
      signWith exampleUtils exampleSigner (Some exampleCurrency) (symbol exampleCurrency)
        exampleSwap (refundPublicKey exampleSwap) [9] [8] 0"
    using quiet e1 by blast
  have s2: "signRefund exampleUtils exampleSignerInFlight exampleRepositories ''sub1'' [9] [8] 0 =
      Inl NOT_ELIGIBLE_FOR_COOPERATIVE_REFUND"
    using flying e2 by blast
  show ?thesis
    using s1 s2 by (simp add: exampleSwap_fields exampleSigner_signWith example_payments)
qed

text \<open>
  Claim C10. In \<open>hasNonFailedLightningPayment\<close>, an error of LND's \<open>trackPayment\<close> is dropped:
  the answer is that of the CLN check (false for a chain swap). So with an LND client
  only, a failing \<open>trackPayment\<close> gives \<open>false\<close>, and the swap is eligible for a refund
  exactly when its status is one of \<open>FailedSwapUpdateEvents\<close>. An error of CLN's
  \<open>checkPayStatus\<close>, reached after the LND error, gives \<open>true\<close> and makes the swap
  ineligible.
\<close>

theorem lnd_error_leaves_eligible:
  assumes "lndClient cur = Some lnd"
    and "trackPayment lnd (getHexBuffer U (preimageHash swap)) = Inl e"
  shows "hasNonFailedLightningPayment U cur swap =
           (swap_type swap \<noteq> Chain \<and> clnHasPayment cur swap) \<and>
         (clnClient cur = None \<longrightarrow>
            \<not> hasNonFailedLightningPayment U cur swap \<and>
            isEligibleForRefund U swap (Some cur) =
              (status swap \<in> set FailedSwapUpdateEvents)) \<and>
         (\<forall>cln inv' e'.
            swap_type swap \<noteq> Chain \<and> clnClient cur = Some cln \<and> invoice swap = Some inv' \<and>
            checkPayStatus cln inv' = Inl e' \<longrightarrow>
            hasNonFailedLightningPayment U cur swap \<and>
            \<not> isEligibleForRefund U swap (Some cur))"
proof -
  have fall: "hasNonFailedLightningPayment U cur swap =
      (swap_type swap \<noteq> Chain \<and> clnHasPayment cur swap)"
    by (rule lnd_error_swallowed [OF assms])
  have none: "\<not> clnHasPayment cur swap" if "clnClient cur = None"
    using that by (simp add: clnHasPayment_def)
  have closed: "clnHasPayment cur swap"
    if "clnClient cur = Some cln" "invoice swap = Some inv'" "checkPayStatus cln inv' = Inl e'"
    for cln inv' e'
    using that by (simp add: clnHasPayment_def)
  show ?thesis
    using fall none closed by (auto simp: isEligibleForRefund_def)
qed

theorem lnd_error_leaves_eligible_witness:
  "\<not> hasNonFailedLightningPayment exampleUtils exampleCurrency exampleSwap \<and>
   isEligibleForRefund exampleUtils exampleSwap (Some exampleCurrency) \<and>
   hasNonFailedLightningPayment exampleUtils exampleCurrencyFailing exampleSwap \<and>
   \<not> isEligibleForRefund exampleUtils exampleSwap (Some exampleCurrencyFailing)"
proof -
  note only_lnd = lnd_error_leaves_eligible [where cur = exampleCurrency and U = exampleUtils
      and swap = exampleSwap, OF exampleCurrency_fields(3) exampleLnd_trackPayment]
  have lnd: "lndClient exampleCurrencyFailing = Some exampleLnd"
    by (simp add: exampleCurrencyFailing_def exampleCurrency_def)
  note both = lnd_error_leaves_eligible [where cur = exampleCurrencyFailing
      and U = exampleUtils and swap = exampleSwap, OF lnd exampleLnd_trackPayment]
  have cln: "swap_type exampleSwap \<noteq> Chain \<and>
      clnClient exampleCurrencyFailing =
        Some \<lparr>checkPayStatus = (\<lambda>i. Inl (Failure ''connection refused''))\<rparr> \<and>
      invoice exampleSwap = Some ''lnbc1m'' \<and>
      checkPayStatus \<lparr>checkPayStatus = (\<lambda>i. Inl (Failure ''connection refused''))\<rparr> ''lnbc1m'' =
        Inl (Failure ''connection refused'')"
    by (simp add: exampleSwap_fields exampleCurrencyFailing_def)
  have failed: "status exampleSwap \<in> set FailedSwapUpdateEvents"
    by (simp add: exampleSwap_fields FailedSwapUpdateEvents_def)
  show ?thesis
    using only_lnd both cln failed exampleCurrency_fields(4) by blast
qed

lemma signReverseSwapClaim_eq:
  assumes "reverseSwapRepository db swapId = Some swap"
  shows "signReverseSwapClaim U this db swapId preimg nonce tx i =
     (if version swap \<noteq> Taproot \<or>
         status swap \<notin> {TransactionMempool, TransactionConfirmed, InvoiceSettled}
      then (Inl NOT_ELIGIBLE_FOR_COOPERATIVE_CLAIM, db)
      else if getHexString U (sha256 U preimg) \<noteq> preimageHash swap
      then (Inl INCORRECT_PREIMAGE, db)
      else
        (case (if status swap \<noteq> InvoiceSettled
               then settleReverseSwapInvoice this
                      (swap\<lparr>preimage := Some (getHexString U preimg)\<rparr>) preimg
                      (db\<lparr>reverseSwapRepository := (reverseSwapRepository db)
                            (swap_id swap \<mapsto> swap\<lparr>preimage := Some (getHexString U preimg)\<rparr>)\<rparr>)
               else Inr (db\<lparr>reverseSwapRepository := (reverseSwapRepository db)
                            (swap_id swap \<mapsto> swap\<lparr>preimage := Some (getHexString U preimg)\<rparr>)\<rparr>)) of
           Inl f \<Rightarrow>
             (Inl (Rejected f),
              db\<lparr>reverseSwapRepository := (reverseSwapRepository db)
                    (swap_id swap \<mapsto> swap\<lparr>preimage := Some (getHexString U preimg)\<rparr>)\<rparr>)
         | Inr db2 \<Rightarrow>
             (signWith U this
                (currencies this
                   (getChainCurrency U (fst (splitPairId U (pair swap)))
                      (snd (splitPairId U (pair swap))) (orderSide swap) True))
                (getChainCurrency U (fst (splitPairId U (pair swap)))
                   (snd (splitPairId U (pair swap))) (orderSide swap) True)
                (swap\<lparr>preimage := Some (getHexString U preimg)\<rparr>) (claimPublicKey swap)
                nonce tx i,
              db2)))"
  using assms
  by (cases "splitPairId U (pair swap)")
     (simp add: signReverseSwapClaim_def isPreimageValid_def setPreimage_def Let_def
        split: sum.splits)

text \<open>
  Claim C2. For a \<open>signReverseSwapClaim\<close> call on an existing reverse swap: if the version
  is not \<open>Taproot\<close> or the status is none of \<open>TransactionMempool\<close>, \<open>TransactionConfirmed\<close>
  and \<open>InvoiceSettled\<close>, the call fails with \<open>NOT_ELIGIBLE_FOR_COOPERATIVE_CLAIM\<close>; if
  those checks pass and the hash of the preimage is not the swap's \<open>preimageHash\<close>, it
  fails with \<open>INCORRECT_PREIMAGE\<close>; in both cases the repositories are unchanged. The
  repositories change only when the preimage is valid, and then the preimage is stored
  before the invoice is settled and the signature made.
\<close>

theorem signReverseSwapClaim_guards:
  assumes "reverseSwapRepository db swapId = Some swap"
    and "swap' = swap\<lparr>preimage := Some (getHexString U preimg)\<rparr>"
    and "db1 = db\<lparr>reverseSwapRepository := (reverseSwapRepository db)(swap_id swap \<mapsto> swap')\<rparr>"
  shows "(version swap \<noteq> Taproot \<or>
          status swap \<notin> {TransactionMempool, TransactionConfirmed, InvoiceSettled} \<longrightarrow>
            signReverseSwapClaim U this db swapId preimg nonce tx i =
              (Inl NOT_ELIGIBLE_FOR_COOPERATIVE_CLAIM, db)) \<and>
         (version swap = Taproot \<and>
          status swap \<in> {TransactionMempool, TransactionConfirmed, InvoiceSettled} \<and>
          getHexString U (sha256 U preimg) \<noteq> preimageHash swap \<longrightarrow>
            signReverseSwapClaim U this db swapId preimg nonce tx i =
              (Inl INCORRECT_PREIMAGE, db)) \<and>
         (snd (signReverseSwapClaim U this db swapId preimg nonce tx i) \<noteq> db \<longrightarrow>
            version swap = Taproot \<and>
            status swap \<in> {TransactionMempool, TransactionConfirmed, InvoiceSettled} \<and>
            getHexString U (sha256 U preimg) = preimageHash swap) \<and>
         (version swap = Taproot \<and>
          status swap \<in> {TransactionMempool, TransactionConfirmed, InvoiceSettled} \<and>
          getHexString U (sha256 U preimg) = preimageHash swap \<longrightarrow>
            fst (signReverseSwapClaim U this db swapId preimg nonce tx i) \<noteq>
              Inl NOT_ELIGIBLE_FOR_COOPERATIVE_CLAIM \<and>
            fst (signReverseSwapClaim U this db swapId preimg nonce tx i) \<noteq>
              Inl INCORRECT_PREIMAGE \<and>
            snd (signReverseSwapClaim U this db swapId preimg nonce tx i) =
              (case (if status swap \<noteq> InvoiceSettled
                     then settleReverseSwapInvoice this swap' preimg db1 else Inr db1) of
                 Inl f \<Rightarrow> db1
               | Inr db2 \<Rightarrow> db2))"
  unfolding signReverseSwapClaim_eq [OF assms(1)] assms(2,3)
  using signWith_not_ineligible(2,3)
  by (auto split: sum.splits)

lemma exampleReverseSwap_fields:
  "version exampleReverseSwap = Taproot" "status exampleReverseSwap = TransactionMempool"
  "preimageHash exampleReverseSwap = ''030405''" "swap_id exampleReverseSwap = ''rev1''"
  "claimPublicKey exampleReverseSwap = Some ''03cd''"
  by (simp_all add: exampleReverseSwap_def)

lemma exampleSigner_settle:
  "settleReverseSwapInvoice exampleSigner swap preimg db =
     Inr (db\<lparr>reverseSwapRepository :=
            (reverseSwapRepository db)(swap_id swap \<mapsto> swap\<lparr>status := InvoiceSettled\<rparr>)\<rparr>)"
  by (simp add: exampleSigner_def)

lemma exampleSigner_claim:
  "fst (signReverseSwapClaim exampleUtils exampleSigner exampleRepositories ''rev1'' [2, 3, 4]
          [9] [8] 0) =
     Inr \<lparr>pubNonce = [1, 2, 3], signature = [4, 5, 6]\<rparr>"
  by (simp add: signReverseSwapClaim_eq [OF exampleRepositories_lookup(2)]
      exampleReverseSwap_fields exampleUtils_hex exampleSigner_settle exampleSigner_signWith)

theorem signReverseSwapClaim_guards_witness:
  "signReverseSwapClaim exampleUtils exampleSigner exampleRepositories ''rev2'' [2, 3, 4]
       [9] [8] 0 =
     (Inl NOT_ELIGIBLE_FOR_COOPERATIVE_CLAIM, exampleRepositories) \<and>
   signReverseSwapClaim exampleUtils exampleSigner exampleRepositories ''rev1'' [7, 7, 7]
       [9] [8] 0 =
     (Inl INCORRECT_PREIMAGE, exampleRepositories) \<and>
   fst (signReverseSwapClaim exampleUtils exampleSigner exampleRepositories ''rev1'' [2, 3, 4]
          [9] [8] 0) =
     Inr \<lparr>pubNonce = [1, 2, 3], signature = [4, 5, 6]\<rparr> \<and>
   reverseSwapRepository
       (snd (signReverseSwapClaim exampleUtils exampleSigner exampleRepositories ''rev1''
          [2, 3, 4] [9] [8] 0)) ''rev1'' =
     Some (exampleReverseSwap\<lparr>preimage := Some ''020304'', status := InvoiceSettled\<rparr>)"
proof -
  note ineligible = signReverseSwapClaim_guards [where U = exampleUtils
      and this = exampleSigner and db = exampleRepositories and swapId = "''rev2''"
      and preimg = "[2, 3, 4]" and nonce = "[9]" and tx = "[8]" and i = 0,
      OF exampleRepositories_lookup(3) refl refl]
  note wrong = signReverseSwapClaim_guards [where U = exampleUtils
      and this = exampleSigner and db = exampleRepositories and swapId = "''rev1''"
      and preimg = "[7, 7, 7]" and nonce = "[9]" and tx = "[8]" and i = 0,
      OF exampleRepositories_lookup(2) refl refl]
  note right = signReverseSwapClaim_guards [where U = exampleUtils
      and this = exampleSigner and db = exampleRepositories and swapId = "''rev1''"
      and preimg = "[2, 3, 4]" and nonce = "[9]" and tx = "[8]" and i = 0,
      OF exampleRepositories_lookup(2) refl refl]
  have p1: "status (exampleReverseSwap\<lparr>swap_id := ''rev2'', status := SwapCreated\<rparr>) \<notin>
      {TransactionMempool, TransactionConfirmed, InvoiceSettled}"
    by simp
  have c1: "signReverseSwapClaim exampleUtils exampleSigner exampleRepositories ''rev2''
      [2, 3, 4] [9] [8] 0 = (Inl NOT_ELIGIBLE_FOR_COOPERATIVE_CLAIM, exampleRepositories)"
    using ineligible p1 by blast
  have p2: "version exampleReverseSwap = Taproot \<and>
      status exampleReverseSwap \<in> {TransactionMempool, TransactionConfirmed, InvoiceSettled}"
    by (simp add: exampleReverseSwap_fields)
  have p3: "getHexString exampleUtils (sha256 exampleUtils [7, 7, 7]) \<noteq>
      preimageHash exampleReverseSwap"
    by (simp add: exampleReverseSwap_fields exampleUtils_hex)
  have c2: "signReverseSwapClaim exampleUtils exampleSigner exampleRepositories ''rev1''
      [7, 7, 7] [9] [8] 0 = (Inl INCORRECT_PREIMAGE, exampleRepositories)"
    using wrong p2 p3 by blast
  have p4: "getHexString exampleUtils (sha256 exampleUtils [2, 3, 4]) =
      preimageHash exampleReverseSwap"
    by (simp add: exampleReverseSwap_fields exampleUtils_hex)
  have c3: "snd (signReverseSwapClaim exampleUtils exampleSigner exampleRepositories ''rev1''
          [2, 3, 4] [9] [8] 0) =
      (case (if status exampleReverseSwap \<noteq> InvoiceSettled
             then settleReverseSwapInvoice exampleSigner
                    (exampleReverseSwap\<lparr>preimage := Some (getHexString exampleUtils [2, 3, 4])\<rparr>)
                    [2, 3, 4]
                    (exampleRepositories\<lparr>reverseSwapRepository :=
                       (reverseSwapRepository exampleRepositories)
                         (swap_id exampleReverseSwap \<mapsto>
                            exampleReverseSwap\<lparr>preimage :=
                              Some (getHexString exampleUtils [2, 3, 4])\<rparr>)\<rparr>)
             else Inr (exampleRepositories\<lparr>reverseSwapRepository :=
                       (reverseSwapRepository exampleRepositories)
                         (swap_id exampleReverseSwap \<mapsto>
                            exampleReverseSwap\<lparr>preimage :=
                              Some (getHexString exampleUtils [2, 3, 4])\<rparr>)\<rparr>)) of
         Inl f \<Rightarrow> exampleRepositories\<lparr>reverseSwapRepository :=
                       (reverseSwapRepository exampleRepositories)
                         (swap_id exampleReverseSwap \<mapsto>
                            exampleReverseSwap\<lparr>preimage :=
                              Some (getHexString exampleUtils [2, 3, 4])\<rparr>)\<rparr>
       | Inr db2 \<Rightarrow> db2)"
    using right p2 p4 by blast
  have c4: "reverseSwapRepository
       (snd (signReverseSwapClaim exampleUtils exampleSigner exampleRepositories ''rev1''
          [2, 3, 4] [9] [8] 0)) ''rev1'' =
     Some (exampleReverseSwap\<lparr>preimage := Some ''020304'', status := InvoiceSettled\<rparr>)"
    unfolding c3
    by (simp add: exampleReverseSwap_fields exampleUtils_hex exampleSigner_settle)
  show ?thesis
    using c1 c2 c4 exampleSigner_claim by simp
qed

end
